theory Spec2Isabelle
  imports Main "HOL-Library.Word"
begin

unbundle bit_operations_syntax

section \<open>Buffers, strings and the host primitives\<close>

text \<open>
  A Node \<open>Buffer\<close> is a list of bytes. A JavaScript string is a \<open>string\<close>, one
  \<open>char\<close> for each code unit, so the strings covered are those whose code units are
  below 256. Times are milliseconds since the epoch, as \<open>Date.now()\<close> returns them.
\<close>

type_synonym byte = "8 word"
type_synonym buffer = "byte list"

text \<open>
  The functions of Node's \<open>crypto\<close> module and of \<open>Buffer\<close> that the services call are
  not code of the repository. They are the fields of a record that every operation
  takes as its first argument:
  \<^item> \<open>pbkdf2Sync password salt iterations keylen\<close> (digest \<open>sha256\<close> at every call site);
  \<^item> \<open>gcmEncrypt key iv plaintext\<close>: \<open>createCipheriv('aes-256-gcm', key, iv)\<close>,
    \<open>update\<close>, \<open>final\<close> and \<open>getAuthTag\<close>, giving the ciphertext and the tag;
  \<^item> \<open>gcmDecrypt key iv tag ciphertext\<close>: \<open>createDecipheriv\<close>, \<open>setAuthTag\<close>,
    \<open>update\<close> and \<open>final\<close>; \<open>None\<close> when \<open>final\<close> throws;
  \<^item> \<open>sha256\<close>: \<open>createHash('sha256').update(b).digest()\<close>;
  \<^item> \<open>utf8Encode\<close>, \<open>utf8Decode\<close>: \<open>Buffer.from(s, 'utf8')\<close>, \<open>b.toString('utf8')\<close>;
  \<^item> \<open>base64Encode\<close>, \<open>base64Decode\<close>: \<open>b.toString('base64')\<close>, \<open>Buffer.from(s, 'base64')\<close>;
  \<^item> \<open>placeholderJpeg\<close>: the 300x300 grey JPEG that \<open>sharp\<close> renders for a locked thumbnail.
\<close>

record prims =
  pbkdf2Sync :: "string \<Rightarrow> buffer \<Rightarrow> nat \<Rightarrow> nat \<Rightarrow> buffer"
  gcmEncrypt :: "buffer \<Rightarrow> buffer \<Rightarrow> buffer \<Rightarrow> buffer \<times> buffer"
  gcmDecrypt :: "buffer \<Rightarrow> buffer \<Rightarrow> buffer \<Rightarrow> buffer \<Rightarrow> buffer option"
  sha256 :: "buffer \<Rightarrow> buffer"
  utf8Encode :: "string \<Rightarrow> buffer"
  utf8Decode :: "buffer \<Rightarrow> string"
  base64Encode :: "buffer \<Rightarrow> string"
  base64Decode :: "string \<Rightarrow> buffer"
  placeholderJpeg :: buffer

subsection \<open>Hexadecimal encoding\<close>

definition hexDigit :: "nat \<Rightarrow> char" where
  "hexDigit n = ''0123456789abcdef'' ! (n mod 16)"

definition toHex :: "buffer \<Rightarrow> string" where
  "toHex b = concat (map (\<lambda>x. [hexDigit (unat x div 16), hexDigit (unat x mod 16)]) b)"

definition hexVal :: "char \<Rightarrow> nat option" where
  "hexVal c =
     (let n = (of_char c :: nat) in
      if 48 \<le> n \<and> n \<le> 57 then Some (n - 48)
      else if 97 \<le> n \<and> n \<le> 102 then Some (n - 87)
      else if 65 \<le> n \<and> n \<le> 70 then Some (n - 55)
      else None)"

text \<open>\<open>Buffer.from(s, 'hex')\<close> decodes pairs of digits and stops at the first pair that is
  not hexadecimal; a trailing single character is dropped.\<close>

fun fromHex :: "string \<Rightarrow> buffer" where
  "fromHex (a # b # rest) =
     (case (hexVal a, hexVal b) of
        (Some x, Some y) \<Rightarrow> of_nat (16 * x + y) # fromHex rest
      | _ \<Rightarrow> [])"
| "fromHex _ = []"

subsection \<open>String helpers of the JavaScript runtime\<close>

fun startsWith :: "string \<Rightarrow> string \<Rightarrow> bool" where
  "startsWith s [] = True"
| "startsWith [] (p # ps) = False"
| "startsWith (c # cs) (p # ps) = (c = p \<and> startsWith cs ps)"

text \<open>\<open>s.includes(sub)\<close>: \<open>sub\<close> occurs in \<open>s\<close> as a contiguous, case-sensitive run.\<close>

fun includesStr :: "string \<Rightarrow> string \<Rightarrow> bool" where
  "includesStr [] sub = (sub = [])"
| "includesStr (c # cs) sub = (startsWith (c # cs) sub \<or> includesStr cs sub)"

text \<open>\<open>s.split(sep)\<close> for a one-character separator; the accumulator holds the piece
  being read, reversed.\<close>

fun splitAcc :: "char \<Rightarrow> string \<Rightarrow> string \<Rightarrow> string list" where
  "splitAcc sep acc [] = [rev acc]"
| "splitAcc sep acc (c # cs) =
     (if c = sep then rev acc # splitAcc sep [] cs else splitAcc sep (c # acc) cs)"

definition split :: "string \<Rightarrow> char \<Rightarrow> string list" where
  "split s sep = splitAcc sep [] s"

text \<open>Truthiness of an optional string: \<open>undefined\<close>, \<open>null\<close> and \<open>''\<close> are falsy.\<close>

definition truthy :: "string option \<Rightarrow> bool" where
  "truthy s = (case s of None \<Rightarrow> False | Some x \<Rightarrow> x \<noteq> [])"

section \<open>CryptoService\<close>

definition keyLength :: nat where "keyLength = 32"
definition ivLength :: nat where "ivLength = 16"
definition tagLength :: nat where "tagLength = 16"

definition deriveKey :: "prims \<Rightarrow> string \<Rightarrow> buffer \<Rightarrow> buffer" where
  "deriveKey P passphrase salt = pbkdf2Sync P passphrase salt 15000 keyLength"

text \<open>
  \<open>encryptBuffer\<close> draws a 32-byte salt (\<open>generateSalt\<close>) and a 16-byte IV from
  \<open>crypto.randomBytes\<close>. The two draws are arguments of the model.
\<close>

definition encryptBuffer :: "prims \<Rightarrow> buffer \<Rightarrow> buffer \<Rightarrow> buffer \<Rightarrow> string \<Rightarrow> buffer" where
  "encryptBuffer P salt iv buf passphrase =
     (let key = deriveKey P passphrase salt;
          (encrypted, tag) = gcmEncrypt P key iv buf
      in salt @ iv @ tag @ encrypted)"

text \<open>\<open>b.subarray(i, j)\<close> and \<open>b.subarray(i)\<close>, for \<open>0 \<le> i \<le> j\<close>.\<close>

definition subarray :: "buffer \<Rightarrow> nat \<Rightarrow> nat \<Rightarrow> buffer" where
  "subarray b i j = take (j - i) (drop i b)"

definition subarrayFrom :: "buffer \<Rightarrow> nat \<Rightarrow> buffer" where
  "subarrayFrom b i = drop i b"

text \<open>A thrown \<open>Error\<close> is \<open>Inl\<close> of its message.\<close>

definition decryptBuffer :: "prims \<Rightarrow> buffer \<Rightarrow> string \<Rightarrow> string + buffer" where
  "decryptBuffer P encryptedBuffer passphrase =
     (if length encryptedBuffer < keyLength + ivLength + tagLength
      then Inl ''Invalid encrypted buffer length''
      else
        let salt = subarray encryptedBuffer 0 32;
            iv = subarray encryptedBuffer 32 (32 + ivLength);
            tag = subarray encryptedBuffer (32 + ivLength) (32 + ivLength + tagLength);
            encrypted = subarrayFrom encryptedBuffer (32 + ivLength + tagLength);
            key = deriveKey P passphrase salt
        in case gcmDecrypt P key iv tag encrypted of
             Some decrypted \<Rightarrow> Inr decrypted
           | None \<Rightarrow> Inl ''Decryption failed: Invalid passphrase or corrupted data'')"

definition encryptString :: "prims \<Rightarrow> buffer \<Rightarrow> buffer \<Rightarrow> string \<Rightarrow> string \<Rightarrow> string" where
  "encryptString P salt iv text passphrase =
     base64Encode P (encryptBuffer P salt iv (utf8Encode P text) passphrase)"

definition decryptString :: "prims \<Rightarrow> string \<Rightarrow> string \<Rightarrow> string + string" where
  "decryptString P encryptedText passphrase =
     (case decryptBuffer P (base64Decode P encryptedText) passphrase of
        Inl e \<Rightarrow> Inl e
      | Inr decrypted \<Rightarrow> Inr (utf8Decode P decrypted))"

text \<open>\<open>hashPassword\<close> draws a 16-byte salt; the draw is an argument.\<close>

definition hashPassword :: "prims \<Rightarrow> buffer \<Rightarrow> string \<Rightarrow> string" where
  "hashPassword P salt password =
     toHex salt @ '':'' @ toHex (pbkdf2Sync P password salt 15000 64)"

text \<open>
  \<open>verifyPassword\<close> destructures the first two pieces of \<open>hashedPassword.split(':')\<close>;
  the second is \<open>undefined\<close> when the stored string has no colon, and then \<open>===\<close> is
  false. The comparison is the language's \<open>===\<close> on strings.
\<close>

definition verifyPassword :: "prims \<Rightarrow> string \<Rightarrow> string \<Rightarrow> bool" where
  "verifyPassword P password hashedPassword =
     (let parts = split hashedPassword (CHR '':'');
          saltHex = hd parts;
          hashHex = (if 1 < length parts then Some (parts ! 1) else None);
          salt = fromHex saltHex;
          hash = pbkdf2Sync P password salt 15000 64
      in Some (toHex hash) = hashHex)"

text \<open>
  \<open>constantTimeCompare\<close>: \<open>charCodeAt\<close> gives the code unit, \<open>^\<close> and \<open>|=\<close> work on
  32-bit integers. No function of the repository calls it.
\<close>

definition charCode :: "char \<Rightarrow> 32 word" where
  "charCode c = of_nat (of_char c)"

fun compareLoop :: "32 word \<Rightarrow> string \<Rightarrow> string \<Rightarrow> 32 word" where
  "compareLoop result (x # xs) (y # ys) = compareLoop (result OR (charCode x XOR charCode y)) xs ys"
| "compareLoop result _ _ = result"

definition constantTimeCompare :: "string \<Rightarrow> string \<Rightarrow> bool" where
  "constantTimeCompare a b =
     (if length a \<noteq> length b then False else compareLoop 0 a b = 0)"

section \<open>Persistent and in-memory state\<close>

text \<open>
  The rows of the \<open>users\<close> and \<open>media_files\<close> tables, with the columns the vault
  reads or writes, and the entries of the module-level \<open>vaultTokenStore\<close> map.
\<close>

record user =
  email :: "string option"
  role :: "string option"
  vaultPassphrase :: "string option"

record mediaFile =
  mediaId :: string
  filename :: string
  originalName :: string
  mimeType :: string
  fileSize :: nat
  sha256Hash :: string
  binaryData :: buffer
  thumbnailData :: "buffer option"
  isEncrypted :: bool
  encryptionKey :: "string option"
  categoryId :: "string option"
  uploadedBy :: string
  isDeleted :: bool

record tokenData =
  tokenUserId :: string
  tokenPassphrase :: string
  expiresAt :: int

record activity =
  actUserId :: string
  action :: string
  resourceId :: "string option"

record server =
  users :: "string \<rightharpoonup> user"
  mediaFiles :: "mediaFile list"
  activityLogs :: "activity list"
  vaultTokenStore :: "string \<rightharpoonup> tokenData"

subsection \<open>DatabaseStorage\<close>

definition getUser :: "server \<Rightarrow> string \<Rightarrow> user option" where
  "getUser st uid = users st uid"

text \<open>\<open>upsertUser\<close> as the vault setup route calls it, with \<open>id\<close> and \<open>vaultPassphrase\<close>:
  the insert takes the column defaults, the conflict branch sets the given columns.\<close>

definition upsertUser :: "server \<Rightarrow> string \<Rightarrow> string \<Rightarrow> server" where
  "upsertUser st uid vp =
     st\<lparr>users := (users st)(uid \<mapsto>
        (case users st uid of
           None \<Rightarrow> \<lparr>email = None, role = Some ''user'', vaultPassphrase = Some vp\<rparr>
         | Some u \<Rightarrow> u\<lparr>vaultPassphrase := Some vp\<rparr>))\<rparr>"

text \<open>
  The \<open>id\<close> column of \<open>media_files\<close> is a Postgres \<open>uuid\<close>: the text the query passes is
  parsed, and letters compare without regard to case. The routes call \<open>getMediaFile\<close>
  only with a text that passed \<open>isValidUUID\<close>, which Postgres parses.
\<close>

definition lowerChar :: "char \<Rightarrow> char" where
  "lowerChar c =
     (let n = (of_char c :: nat) in if 65 \<le> n \<and> n \<le> 90 then char_of (n + 32) else c)"

definition uuidValue :: "string \<Rightarrow> string" where
  "uuidValue s = map lowerChar s"

definition getMediaFile :: "server \<Rightarrow> string \<Rightarrow> mediaFile option" where
  "getMediaFile st mid = find (\<lambda>f. uuidValue (mediaId f) = uuidValue mid) (mediaFiles st)"

definition getMediaFileByHash :: "server \<Rightarrow> string \<Rightarrow> string \<Rightarrow> mediaFile option" where
  "getMediaFileByHash st h uid =
     find (\<lambda>f. sha256Hash f = h \<and> uploadedBy f = uid \<and> \<not> isDeleted f) (mediaFiles st)"

text \<open>The insert fails on the unique constraint over \<open>(sha256_hash, uploaded_by)\<close>.\<close>

definition createMediaFile :: "server \<Rightarrow> mediaFile \<Rightarrow> string + server" where
  "createMediaFile st f =
     (if list_ex (\<lambda>g. sha256Hash g = sha256Hash f \<and> uploadedBy g = uploadedBy f) (mediaFiles st)
      then Inl ''duplicate key value violates unique constraint''
      else Inr (st\<lparr>mediaFiles := mediaFiles st @ [f]\<rparr>))"

definition logActivity :: "server \<Rightarrow> string \<Rightarrow> string \<Rightarrow> string option \<Rightarrow> server" where
  "logActivity st uid act res =
     st\<lparr>activityLogs := activityLogs st @ [\<lparr>actUserId = uid, action = act, resourceId = res\<rparr>]\<rparr>"

section \<open>Vault tokens\<close>

text \<open>The five-minute \<open>setInterval\<close> sweep, run at time \<open>now\<close>.\<close>

definition sweep :: "int \<Rightarrow> (string \<rightharpoonup> tokenData) \<Rightarrow> (string \<rightharpoonup> tokenData)" where
  "sweep now store =
     (\<lambda>token. case store token of
        None \<Rightarrow> None
      | Some d \<Rightarrow> if now > expiresAt d then None else Some d)"

definition isLineTerminator :: "char \<Rightarrow> bool" where
  "isLineTerminator c = (c = CHR 0x0A \<or> c = CHR 0x0D)"

text \<open>\<open>authHeader.match(/^Bearer vault:(.+)$/)\<close>: the prefix, then at least one
  character and no line terminator up to the end.\<close>

definition extractVaultToken :: "string option \<Rightarrow> string option" where
  "extractVaultToken authHeader =
     (case authHeader of
        None \<Rightarrow> None
      | Some h \<Rightarrow>
          if h = [] then None
          else if startsWith h ''Bearer vault:''
            then (let t = drop 13 h in
                  if t \<noteq> [] \<and> \<not> list_ex isLineTerminator t then Some t else None)
          else None)"

text \<open>\<open>getVaultPassphrase\<close> returns the passphrase or \<open>null\<close>, or throws; the token
  store it leaves behind is the second component.\<close>

definition getVaultPassphrase ::
  "(string \<rightharpoonup> tokenData) \<Rightarrow> string \<Rightarrow> string \<Rightarrow> int
     \<Rightarrow> (string + string option) \<times> (string \<rightharpoonup> tokenData)" where
  "getVaultPassphrase store token requestingUserId now =
     (case store token of
        None \<Rightarrow> (Inr None, store)
      | Some d \<Rightarrow>
          if now > expiresAt d then (Inr None, store(token := None))
          else if tokenUserId d \<noteq> requestingUserId
            then (Inl ''Vault token does not belong to the requesting user'', store)
          else (Inr (Some (tokenPassphrase d)), store))"

section \<open>MediaService\<close>

record content =
  contentBuffer :: buffer
  contentMimeType :: string
  contentFilename :: string

text \<open>The \<open>try\<close> block of \<open>getMediaContent\<close> and \<open>getThumbnail\<close>: unwrap the key with the
  vault passphrase, then decrypt the stored bytes with it.\<close>

definition unwrapAndDecrypt :: "prims \<Rightarrow> mediaFile \<Rightarrow> buffer \<Rightarrow> string \<Rightarrow> string + buffer" where
  "unwrapAndDecrypt P f buf vp =
     (if \<not> truthy (encryptionKey f) then Inl ''Encrypted content missing encryption key''
      else case decryptString P (the (encryptionKey f)) vp of
             Inl e \<Rightarrow> Inl e
           | Inr unwrappedKey \<Rightarrow> decryptBuffer P buf unwrappedKey)"

definition getMediaContent ::
  "prims \<Rightarrow> server \<Rightarrow> string \<Rightarrow> string \<Rightarrow> bool \<Rightarrow> string option \<Rightarrow> string + content option" where
  "getMediaContent P st mid requestingUserId decrypt vp =
     (case getMediaFile st mid of
        None \<Rightarrow> Inr None
      | Some f \<Rightarrow>
          if uploadedBy f \<noteq> requestingUserId
          then Inl ''Access denied: You do not own this media file''
          else if isEncrypted f \<and> decrypt \<and> truthy vp
          then (case unwrapAndDecrypt P f (binaryData f) (the vp) of
                  Inl e \<Rightarrow> Inl ''Invalid vault passphrase or corrupted encryption data''
                | Inr b \<Rightarrow> Inr (Some \<lparr>contentBuffer = b, contentMimeType = mimeType f,
                                       contentFilename = originalName f\<rparr>))
          else if isEncrypted f \<and> \<not> decrypt
          then Inl ''Content is encrypted and requires decryption''
          else Inr (Some \<lparr>contentBuffer = binaryData f, contentMimeType = mimeType f,
                           contentFilename = originalName f\<rparr>))"

definition getThumbnail ::
  "prims \<Rightarrow> server \<Rightarrow> string \<Rightarrow> string \<Rightarrow> bool \<Rightarrow> string option \<Rightarrow> string + buffer option" where
  "getThumbnail P st mid requestingUserId decrypt vp =
     (case getMediaFile st mid of
        None \<Rightarrow> Inr None
      | Some f \<Rightarrow>
          (case thumbnailData f of
             None \<Rightarrow> Inr None
           | Some t \<Rightarrow>
               if uploadedBy f \<noteq> requestingUserId
               then Inl ''Access denied: You do not own this media file''
               else if isEncrypted f \<and> decrypt \<and> truthy vp
               then (case unwrapAndDecrypt P f t (the vp) of
                       Inl e \<Rightarrow> Inl ''Invalid vault passphrase for thumbnail decryption''
                     | Inr b \<Rightarrow> Inr (Some b))
               else if isEncrypted f \<and> \<not> decrypt
               then Inr (Some (placeholderJpeg P))
               else Inr (Some t)))"

text \<open>
  \<open>processFile\<close>. What \<open>sharp\<close> and \<open>ffmpeg\<close> make of the bytes, the random salts and
  IVs of the three encryptions, the generated file name and the row id the database
  assigns are the environment's draws for one file. \<open>probe\<close> is \<open>Inl\<close> of the message
  when the image or video library throws, else the thumbnail it produced, if any.
\<close>

record draws =
  probe :: "string + buffer option"
  contentSalt :: buffer
  contentIv :: buffer
  keySalt :: buffer
  keyIv :: buffer
  thumbSalt :: buffer
  thumbIv :: buffer
  uniqueFilename :: string
  newId :: string

record options =
  optGenerateThumbnail :: bool
  optEncryptContent :: bool
  optEncryptionKey :: "string option"
  optVaultPassphrase :: "string option"
  optCategoryId :: "string option"

record uploadResult =
  resultId :: string
  resultSha256Hash :: string
  isDuplicate :: bool
  thumbnailGenerated :: bool

text \<open>The thumbnail after the media-type branch: an image that \<open>sharp\<close> rejects makes
  \<open>processFile\<close> throw, a video that \<open>ffmpeg\<close> rejects goes on without a thumbnail.\<close>

definition makeThumbnail :: "string \<Rightarrow> bool \<Rightarrow> draws \<Rightarrow> string + buffer option" where
  "makeThumbnail mime generateThumbnail d =
     (if startsWith mime ''image/''
      then (case probe d of
              Inl e \<Rightarrow> Inl e
            | Inr t \<Rightarrow> Inr (if generateThumbnail then t else None))
      else if startsWith mime ''video/''
      then (case probe d of
              Inl e \<Rightarrow> Inr None
            | Inr t \<Rightarrow> Inr (if generateThumbnail then t else None))
      else Inr None)"

text \<open>The encryption step: the bytes to store, the wrapped key and the thumbnail.\<close>

definition encryptStep ::
  "prims \<Rightarrow> server \<Rightarrow> buffer \<Rightarrow> string \<Rightarrow> options \<Rightarrow> draws \<Rightarrow> buffer option
     \<Rightarrow> string + (buffer \<times> string option \<times> buffer option)" where
  "encryptStep P st buf uploader opts d thumb =
     (if optEncryptContent opts \<and> truthy (optEncryptionKey opts) \<and> truthy (optVaultPassphrase opts)
      then (if \<not> truthy (case getUser st uploader of None \<Rightarrow> None | Some u \<Rightarrow> vaultPassphrase u)
            then Inl ''User vault must be set up before encrypting content''
            else
              let key = the (optEncryptionKey opts);
                  processedBuffer = encryptBuffer P (contentSalt d) (contentIv d) buf key;
                  encryptedKey = encryptString P (keySalt d) (keyIv d) key (the (optVaultPassphrase opts));
                  thumbnail = map_option (\<lambda>t. encryptBuffer P (thumbSalt d) (thumbIv d) t key) thumb
              in Inr (processedBuffer, Some encryptedKey, thumbnail))
      else if optEncryptContent opts \<and> \<not> truthy (optVaultPassphrase opts)
      then Inl ''Vault passphrase is required for encrypted content''
      else Inr (buf, None, thumb))"

definition duplicateResult :: "mediaFile \<Rightarrow> string \<Rightarrow> uploadResult" where
  "duplicateResult existing h =
     \<lparr>resultId = mediaId existing, resultSha256Hash = h, isDuplicate = True,
      thumbnailGenerated = False\<rparr>"

definition processFile ::
  "prims \<Rightarrow> server \<Rightarrow> buffer \<Rightarrow> string \<Rightarrow> string \<Rightarrow> string \<Rightarrow> options \<Rightarrow> draws
     \<Rightarrow> string + (uploadResult \<times> server)" where
  "processFile P st buf origName mime uploader opts d =
     (let h = toHex (sha256 P buf) in
      case getMediaFileByHash st h uploader of
        Some existing \<Rightarrow> Inr (duplicateResult existing h, st)
      | None \<Rightarrow>
         (case makeThumbnail mime (optGenerateThumbnail opts) d of
            Inl e \<Rightarrow> Inl e
          | Inr thumb \<Rightarrow>
             (case encryptStep P st buf uploader opts d thumb of
                Inl e \<Rightarrow> Inl e
              | Inr (processedBuffer, encryptedKey, thumbnail) \<Rightarrow>
                 (let fileData = \<lparr>mediaId = newId d, filename = uniqueFilename d,
                        originalName = origName, mimeType = mime, fileSize = length buf,
                        sha256Hash = h, binaryData = processedBuffer, thumbnailData = thumbnail,
                        isEncrypted = optEncryptContent opts, encryptionKey = encryptedKey,
                        categoryId = optCategoryId opts, uploadedBy = uploader, isDeleted = False\<rparr>
                  in case createMediaFile st fileData of
                       Inl e \<Rightarrow>
                         (if includesStr e ''unique_violation'' \<or> includesStr e ''duplicate key''
                               \<or> includesStr e ''UNIQUE constraint''
                          then (case getMediaFileByHash st h uploader of
                                  Some existing \<Rightarrow> Inr (duplicateResult existing h, st)
                                | None \<Rightarrow> Inl e)
                          else Inl e)
                     | Inr st' \<Rightarrow>
                         Inr (\<lparr>resultId = newId d, resultSha256Hash = h, isDuplicate = False,
                               thumbnailGenerated = (thumbnail \<noteq> None)\<rparr>, st')))))"

section \<open>Routes\<close>

datatype fileOutcome = Processed uploadResult | Failed string string

datatype body =
    Message string
  | FileBody string string buffer
  | ThumbnailBody buffer
  | AuthBody string int
  | SuccessBody
  | ResultsBody "fileOutcome list"

datatype response = Response (status: nat) (body: body)

definition isHexChar :: "char \<Rightarrow> bool" where
  "isHexChar c = (c \<in> set ''0123456789abcdefABCDEF'')"

definition uuidPattern :: "(char \<Rightarrow> bool) list" where
  "uuidPattern =
     replicate 8 isHexChar @ [\<lambda>c. c = CHR ''-''] @
     replicate 4 isHexChar @ [\<lambda>c. c = CHR ''-''] @
     [\<lambda>c. c \<in> set ''12345''] @ replicate 3 isHexChar @ [\<lambda>c. c = CHR ''-''] @
     [\<lambda>c. c \<in> set ''89abAB''] @ replicate 3 isHexChar @ [\<lambda>c. c = CHR ''-''] @
     replicate 12 isHexChar"

definition isValidUUID :: "string \<Rightarrow> bool" where
  "isValidUUID s = list_all2 (\<lambda>p c. p c) uuidPattern s"

text \<open>
  The block that the two read routes and the upload route repeat when decryption or
  encryption is asked for: read the header, resolve the token. An exception of
  \<open>getVaultPassphrase\<close> goes to the route's \<open>catch\<close>.
\<close>

datatype resolved = Reply response | Thrown string | Resolved "string option"

definition resolveVaultToken ::
  "string \<Rightarrow> (string \<rightharpoonup> tokenData) \<Rightarrow> string option \<Rightarrow> string \<Rightarrow> int
     \<Rightarrow> resolved \<times> (string \<rightharpoonup> tokenData)" where
  "resolveVaultToken missing store authHeader uid now =
     (case extractVaultToken authHeader of
        None \<Rightarrow> (Reply (Response 401 (Message missing)), store)
      | Some vaultToken \<Rightarrow>
          (case getVaultPassphrase store vaultToken uid now of
             (Inl e, store') \<Rightarrow> (Thrown e, store')
           | (Inr p, store') \<Rightarrow>
               if \<not> truthy p
               then (Reply (Response 401 (Message ''Invalid or expired vault token'')), store')
               else (Resolved p, store')))"

text \<open>The \<open>catch\<close> blocks of \<open>GET /api/media/:id\<close> and \<open>GET /api/media/:id/thumbnail\<close>
  choose the status by the text of the message.\<close>

definition errorDispatch :: "string \<Rightarrow> string \<Rightarrow> string \<Rightarrow> response" where
  "errorDispatch notFound failed msg =
     (if includesStr msg ''Access denied'' then Response 403 (Message msg)
      else if includesStr msg ''Vault token does not belong'' then Response 403 (Message msg)
      else if includesStr msg ''decryption'' then Response 403 (Message msg)
      else if includesStr msg ''invalid input syntax for type uuid'' then Response 404 (Message notFound)
      else Response 500 (Message failed))"

definition mediaError :: "string \<Rightarrow> response" where
  "mediaError = errorDispatch ''Media file not found'' ''Failed to serve media file''"

definition thumbnailError :: "string \<Rightarrow> response" where
  "thumbnailError = errorDispatch ''Thumbnail not found'' ''Failed to serve thumbnail''"

text \<open>
  \<open>res.set\<close> hands each value to Node's \<open>setHeader\<close>, which throws
  \<open>Invalid character in header content\<close> unless every character is a tab or lies in
  \<open>0x20..0x7e\<close> or \<open>0x80..0xff\<close>. \<open>Content-Type\<close> is set first, from the row's
  \<open>mimeType\<close>, then \<open>Content-Disposition\<close>, whose value embeds the row's \<open>originalName\<close>
  between legal characters; \<open>Content-Length\<close> is a number.
\<close>

definition legalHeaderChar :: "char \<Rightarrow> bool" where
  "legalHeaderChar c =
     (let n = (of_char c :: nat) in n = 9 \<or> (32 \<le> n \<and> n \<le> 126) \<or> 128 \<le> n)"

definition legalHeaderValue :: "string \<Rightarrow> bool" where
  "legalHeaderValue s = list_all legalHeaderChar s"

definition headerError :: "string \<Rightarrow> string" where
  "headerError name =
     ''Invalid character in header content ['' @ [CHR 0x22] @ name @ [CHR 0x22] @ '']''"

definition setHeaders :: "content \<Rightarrow> string option" where
  "setHeaders c =
     (if \<not> legalHeaderValue (contentMimeType c) then Some (headerError ''Content-Type'')
      else if \<not> legalHeaderValue (contentFilename c) then Some (headerError ''Content-Disposition'')
      else None)"

text \<open>\<open>GET /api/media/:id\<close>, for the authenticated user \<open>uid\<close>, with the \<open>decrypt\<close>
  query parameter and the \<open>Authorization\<close> header as the request carries them. The
  activity is logged before the headers are set.\<close>

definition getMediaRoute ::
  "prims \<Rightarrow> server \<Rightarrow> string \<Rightarrow> string \<Rightarrow> string option \<Rightarrow> string option \<Rightarrow> int
     \<Rightarrow> response \<times> server" where
  "getMediaRoute P st uid mid decryptQuery authHeader now =
     (if \<not> isValidUUID mid then (Response 404 (Message ''Media file not found''), st)
      else
        let decrypt = (case decryptQuery of None \<Rightarrow> ''false'' | Some q \<Rightarrow> q);
            (r, store') =
              (if decrypt = ''true''
               then resolveVaultToken ''Vault authorization token required for encrypted content''
                      (vaultTokenStore st) authHeader uid now
               else (Resolved None, vaultTokenStore st));
            st' = st\<lparr>vaultTokenStore := store'\<rparr>
        in case r of
             Reply resp \<Rightarrow> (resp, st')
           | Thrown e \<Rightarrow> (mediaError e, st')
           | Resolved vp \<Rightarrow>
               (case getMediaContent P st' mid uid (decrypt = ''true'') vp of
                  Inl e \<Rightarrow> (mediaError e, st')
                | Inr None \<Rightarrow> (Response 404 (Message ''Media file not found''), st')
                | Inr (Some c) \<Rightarrow>
                    (let st'' = logActivity st' uid ''DOWNLOAD_MEDIA'' (Some mid)
                     in case setHeaders c of
                          Some e \<Rightarrow> (mediaError e, st'')
                        | None \<Rightarrow>
                            (Response 200
                               (FileBody (contentMimeType c) (contentFilename c) (contentBuffer c)),
                             st''))))"

definition getThumbnailRoute ::
  "prims \<Rightarrow> server \<Rightarrow> string \<Rightarrow> string \<Rightarrow> string option \<Rightarrow> string option \<Rightarrow> int
     \<Rightarrow> response \<times> server" where
  "getThumbnailRoute P st uid mid decryptQuery authHeader now =
     (if \<not> isValidUUID mid then (Response 404 (Message ''Thumbnail not found''), st)
      else
        let decrypt = (case decryptQuery of None \<Rightarrow> ''false'' | Some q \<Rightarrow> q);
            (r, store') =
              (if decrypt = ''true''
               then resolveVaultToken ''Vault authorization token required for encrypted content''
                      (vaultTokenStore st) authHeader uid now
               else (Resolved None, vaultTokenStore st));
            st' = st\<lparr>vaultTokenStore := store'\<rparr>
        in case r of
             Reply resp \<Rightarrow> (resp, st')
           | Thrown e \<Rightarrow> (thumbnailError e, st')
           | Resolved vp \<Rightarrow>
               (case getThumbnail P st' mid uid (decrypt = ''true'') vp of
                  Inl e \<Rightarrow> (thumbnailError e, st')
                | Inr None \<Rightarrow> (Response 404 (Message ''Thumbnail not found''), st')
                | Inr (Some t) \<Rightarrow> (Response 200 (ThumbnailBody t), st')))"

text \<open>
  \<open>POST /api/media/upload\<close> on its branch for individual files
  (\<open>preserveDirectoryStructure\<close> is not \<open>'true'\<close>), after the body passed validation, so
  \<open>encryptContent\<close> is \<open>'true'\<close> or \<open>'false'\<close>. Each file comes with its bytes as read from
  the temporary file and with its draws; \<open>keyBytes\<close> is the \<open>crypto.randomBytes(32)\<close> of
  the request, whose hex string is the content key of every file of the request.
\<close>

record uploadedFile =
  originalname :: string
  mimetype :: string
  fileBuffer :: buffer

fun processFiles ::
  "prims \<Rightarrow> server \<Rightarrow> string \<Rightarrow> options \<Rightarrow> (uploadedFile \<times> draws) list
     \<Rightarrow> fileOutcome list \<times> server" where
  "processFiles P st uid opts [] = ([], st)"
| "processFiles P st uid opts ((file, d) # rest) =
     (case processFile P st (fileBuffer file) (originalname file) (mimetype file) uid opts d of
        Inl e \<Rightarrow>
          (let (results, st') = processFiles P st uid opts rest
           in (Failed (originalname file) e # results, st'))
      | Inr (result, st1) \<Rightarrow>
          (let (results, st') = processFiles P st1 uid opts rest
           in (Processed result # results, st')))"

definition uploadRoute ::
  "prims \<Rightarrow> server \<Rightarrow> string \<Rightarrow> (uploadedFile \<times> draws) list \<Rightarrow> string \<Rightarrow> string option
     \<Rightarrow> string option \<Rightarrow> int \<Rightarrow> buffer \<Rightarrow> response \<times> server" where
  "uploadRoute P st uid files encryptContent category authHeader now keyBytes =
     (if files = [] then (Response 400 (Message ''No files provided''), st)
      else
        let (r, store') =
              (if encryptContent = ''true''
               then resolveVaultToken ''Vault authorization token required for encrypted uploads''
                      (vaultTokenStore st) authHeader uid now
               else (Resolved None, vaultTokenStore st));
            st' = st\<lparr>vaultTokenStore := store'\<rparr>
        in case r of
             Reply resp \<Rightarrow> (resp, st')
           | Thrown e \<Rightarrow> (Response 500 (Message ''Failed to upload media files''), st')
           | Resolved vp \<Rightarrow>
               (let key = (if encryptContent = ''true'' \<and> toHex keyBytes \<noteq> []
                           then Some (toHex keyBytes) else None);
                    opts = \<lparr>optGenerateThumbnail = True,
                            optEncryptContent = (encryptContent = ''true''),
                            optEncryptionKey = key, optVaultPassphrase = vp,
                            optCategoryId = category\<rparr>;
                    (results, st'') = processFiles P st' uid opts files
                in (Response 200 (ResultsBody results), logActivity st'' uid ''UPLOAD_MEDIA'' None)))"

text \<open>\<open>POST /api/vault/authenticate\<close>; \<open>accessToken\<close> is the \<open>crypto.randomUUID()\<close> drawn.\<close>

definition vaultAuthenticateRoute ::
  "prims \<Rightarrow> server \<Rightarrow> string \<Rightarrow> string option \<Rightarrow> int \<Rightarrow> string \<Rightarrow> response \<times> server" where
  "vaultAuthenticateRoute P st uid passphrase now accessToken =
     (if \<not> truthy passphrase then (Response 400 (Message ''Passphrase is required''), st)
      else if \<not> truthy (case getUser st uid of None \<Rightarrow> None | Some u \<Rightarrow> vaultPassphrase u)
      then (Response 404 (Message ''No vault configured for this user''), st)
      else
        let isValid = verifyPassword P (the passphrase) (the (vaultPassphrase (the (getUser st uid))));
            st1 = logActivity st uid
                    (if isValid then ''VAULT_ACCESS_SUCCESS'' else ''VAULT_ACCESS_FAILED'') None
        in if \<not> isValid then (Response 401 (Message ''Invalid vault passphrase''), st1)
           else
             let expires = now + 30 * 60 * 1000
             in (Response 200 (AuthBody accessToken expires),
                 st1\<lparr>vaultTokenStore := (vaultTokenStore st1)(accessToken \<mapsto>
                       \<lparr>tokenUserId = uid, tokenPassphrase = the passphrase,
                        expiresAt = expires\<rparr>)\<rparr>))"

text \<open>\<open>POST /api/vault/setup\<close>; \<open>salt\<close> is the 16 random bytes that \<open>hashPassword\<close> draws.
  \<open>passphrase.length\<close> is the length of the string.\<close>

definition vaultSetupRoute ::
  "prims \<Rightarrow> server \<Rightarrow> string \<Rightarrow> string option \<Rightarrow> buffer \<Rightarrow> response \<times> server" where
  "vaultSetupRoute P st uid passphrase salt =
     (if \<not> truthy passphrase \<or> length (the passphrase) < 8
      then (Response 400 (Message ''Passphrase must be at least 8 characters long''), st)
      else
        let hashedPassphrase = hashPassword P salt (the passphrase);
            st1 = upsertUser st uid hashedPassphrase
        in (Response 200 SuccessBody, logActivity st1 uid ''VAULT_SETUP'' None))"

section \<open>Assumptions on the host cipher and encodings\<close>

text \<open>
  What the theorems about wrapped keys take from the host: \<open>Buffer.from(s, 'base64')\<close>
  inverts \<open>toString('base64')\<close>, the GCM tag has 16 bytes, and, for one wrapped key, the
  event that AES-GCM under the key derived from another passphrase \<open>h\<close> rejects what was
  encrypted under the key derived from \<open>pw\<close> with the same salt.
\<close>

definition hostBase64 :: "prims \<Rightarrow> bool" where
  "hostBase64 P = (\<forall>b. base64Decode P (base64Encode P b) = b)"

definition hostTag16 :: "prims \<Rightarrow> bool" where
  "hostTag16 P = (\<forall>key iv p. length (snd (gcmEncrypt P key iv p)) = 16)"

definition rejectsUnder :: "prims \<Rightarrow> string \<Rightarrow> string \<Rightarrow> buffer \<Rightarrow> buffer \<Rightarrow> string \<Rightarrow> bool" where
  "rejectsUnder P pw h salt iv cek =
     (case gcmEncrypt P (deriveKey P pw salt) iv (utf8Encode P cek) of
        (c, t) \<Rightarrow> gcmDecrypt P (deriveKey P h salt) iv t c = None)"

text \<open>
  What \<open>processFile\<close> stores for an encrypted upload of \<open>file\<close> with the draws \<open>d\<close>,
  the content key \<open>cek\<close> and the vault passphrase \<open>pw\<close>: the row carries the database id,
  the bytes encrypted under \<open>cek\<close>, the thumbnail, if any, encrypted under \<open>cek\<close>, and
  \<open>cek\<close> itself wrapped under \<open>pw\<close>.
\<close>

definition wrappedRow ::
  "prims \<Rightarrow> string \<Rightarrow> string \<Rightarrow> string \<Rightarrow> uploadedFile \<Rightarrow> draws \<Rightarrow> mediaFile \<Rightarrow> bool" where
  "wrappedRow P uploader cek pw file d f =
     (mediaId f = newId d \<and> uploadedBy f = uploader \<and> isEncrypted f
      \<and> encryptionKey f = Some (encryptString P (keySalt d) (keyIv d) cek pw)
      \<and> binaryData f = encryptBuffer P (contentSalt d) (contentIv d) (fileBuffer file) cek
      \<and> thumbnailData f =
          map_option (\<lambda>t. encryptBuffer P (thumbSalt d) (thumbIv d) t cek)
            (case makeThumbnail (mimetype file) True d of Inl e \<Rightarrow> None | Inr t \<Rightarrow> t))"

section \<open>A small instance of the host primitives\<close>

text \<open>
  An instance of \<open>prims\<close> on which the definitions evaluate: a keyed shift cipher with a
  checksum tag. It stands for AES-GCM and PBKDF2 only when a theorem is run on a concrete
  input.
\<close>

definition toyPbkdf2 :: "string \<Rightarrow> buffer \<Rightarrow> nat \<Rightarrow> nat \<Rightarrow> buffer" where
  "toyPbkdf2 password salt iterations keylen =
     map (\<lambda>i. sum_list (map (\<lambda>c. of_nat (of_char c)) password) + sum_list salt + of_nat i) [0..<keylen]"

definition toyTag :: "buffer \<Rightarrow> buffer \<Rightarrow> buffer \<Rightarrow> buffer" where
  "toyTag key iv plain = replicate 16 (sum_list key + sum_list iv + sum_list plain)"

definition toyEncrypt :: "buffer \<Rightarrow> buffer \<Rightarrow> buffer \<Rightarrow> buffer \<times> buffer" where
  "toyEncrypt key iv plain = (map (\<lambda>b. b + sum_list key) plain, toyTag key iv plain)"

definition toyDecrypt :: "buffer \<Rightarrow> buffer \<Rightarrow> buffer \<Rightarrow> buffer \<Rightarrow> buffer option" where
  "toyDecrypt key iv tag encrypted =
     (let plain = map (\<lambda>b. b - sum_list key) encrypted
      in if tag = toyTag key iv plain then Some plain else None)"

definition toyPrims :: prims where
  "toyPrims = \<lparr> pbkdf2Sync = toyPbkdf2, gcmEncrypt = toyEncrypt, gcmDecrypt = toyDecrypt,
      sha256 = (\<lambda>b. [sum_list b]),
      utf8Encode = map (\<lambda>c. of_nat (of_char c)),
      utf8Decode = map (\<lambda>b. char_of (unat b)),
      base64Encode = toHex, base64Decode = fromHex,
      placeholderJpeg = [255, 216, 255, 217] \<rparr>"

section \<open>Example requests and states\<close>

text \<open>Concrete inputs on which the theorems below are run.\<close>

definition exampleId :: string where
  "exampleId = ''123e4567-e89b-42d3-a456-426614174000''"

definition aliceToken :: tokenData where
  "aliceToken = \<lparr>tokenUserId = ''alice'', tokenPassphrase = ''Tr0ub4dor&3'', expiresAt = 1800000\<rparr>"

definition tokenServer :: server where
  "tokenServer = \<lparr>users = Map.empty, mediaFiles = [], activityLogs = [],
     vaultTokenStore = [''T1'' \<mapsto> aliceToken]\<rparr>"

definition vaultHash :: string where
  "vaultHash = hashPassword toyPrims (replicate 16 1) ''Tr0ub4dor&3''"

definition lockedFile :: mediaFile where
  "lockedFile = \<lparr>mediaId = exampleId, filename = ''1700000000000_00.jpg'',
     originalName = ''cat.jpg'', mimeType = ''image/jpeg'', fileSize = 3,
     sha256Hash = ''06'', binaryData = [1, 2, 3], thumbnailData = Some [4, 5],
     isEncrypted = True, encryptionKey = Some ''AAAA'', categoryId = None,
     uploadedBy = ''alice'', isDeleted = False\<rparr>"

definition aliceServer :: server where
  "aliceServer = \<lparr>users = [''alice'' \<mapsto> \<lparr>email = None, role = Some ''user'',
        vaultPassphrase = Some vaultHash\<rparr>],
     mediaFiles = [lockedFile], activityLogs = [],
     vaultTokenStore = [''T1'' \<mapsto> aliceToken]\<rparr>"

definition vaultServer :: server where
  "vaultServer = \<lparr>users = [''alice'' \<mapsto> \<lparr>email = None, role = Some ''user'',
        vaultPassphrase = Some vaultHash\<rparr>],
     mediaFiles = [], activityLogs = [], vaultTokenStore = Map.empty\<rparr>"

definition exampleUpload :: uploadedFile where
  "exampleUpload = \<lparr>originalname = ''cat.jpg'', mimetype = ''image/jpeg'', fileBuffer = [1, 2, 3]\<rparr>"

definition exampleDraws :: draws where
  "exampleDraws = \<lparr>probe = Inr (Some [4, 5]),
     contentSalt = replicate 32 3, contentIv = replicate 16 4,
     keySalt = replicate 32 5, keyIv = replicate 16 6,
     thumbSalt = replicate 32 7, thumbIv = replicate 16 8,
     uniqueFilename = ''1700000000000_00.jpg'', newId = exampleId\<rparr>"

definition unlockedServer :: server where
  "unlockedServer = snd (vaultAuthenticateRoute toyPrims vaultServer ''alice'' (Some ''Tr0ub4dor&3'') 0 ''T1'')"

definition uploadedServer :: server where
  "uploadedServer = snd (uploadRoute toyPrims unlockedServer ''alice'' [(exampleUpload, exampleDraws)]
     ''true'' None (Some ''Bearer vault:T1'') 1000 (replicate 32 9))"

definition plainFile :: mediaFile where
  "plainFile = \<lparr>mediaId = exampleId, filename = ''1700000000000_01.jpg'',
     originalName = ''dog.jpg'', mimeType = ''image/jpeg'', fileSize = 3,
     sha256Hash = ''06'', binaryData = [1, 2, 3], thumbnailData = Some [4, 5],
     isEncrypted = False, encryptionKey = None, categoryId = None,
     uploadedBy = ''alice'', isDeleted = False\<rparr>"

definition plainServer :: server where
  "plainServer = \<lparr>users = Map.empty, mediaFiles = [plainFile], activityLogs = [],
     vaultTokenStore = Map.empty\<rparr>"

definition secondId :: string where
  "secondId = ''223e4567-e89b-42d3-a456-426614174000''"

definition secondUpload :: uploadedFile where
  "secondUpload = \<lparr>originalname = ''dog.jpg'', mimetype = ''image/jpeg'', fileBuffer = [7, 8]\<rparr>"

definition secondDraws :: draws where
  "secondDraws = \<lparr>probe = Inr (Some [6]),
     contentSalt = replicate 32 13, contentIv = replicate 16 14,
     keySalt = replicate 32 15, keyIv = replicate 16 16,
     thumbSalt = replicate 32 17, thumbIv = replicate 16 18,
     uniqueFilename = ''1700000000000_01.jpg'', newId = secondId\<rparr>"

definition twoFileServer :: server where
  "twoFileServer = snd (uploadRoute toyPrims unlockedServer ''alice''
     [(exampleUpload, exampleDraws), (secondUpload, secondDraws)]
     ''true'' None (Some ''Bearer vault:T1'') 1000 (replicate 32 9))"

section \<open>Properties of the AEAD wrapper\<close>

lemma decryptBuffer_frame:
  assumes "length salt = 32" and "length iv = 16" and "length tag = 16"
  shows "decryptBuffer P (salt @ iv @ tag @ encrypted) k =
     (case gcmDecrypt P (deriveKey P k salt) iv tag encrypted of
        Some decrypted \<Rightarrow> Inr decrypted
      | None \<Rightarrow> Inl ''Decryption failed: Invalid passphrase or corrupted data'')"
  using assms
  by (simp add: decryptBuffer_def subarray_def subarrayFrom_def keyLength_def ivLength_def
      tagLength_def)

lemma toyDecrypt_toyEncrypt:
  "toyEncrypt key iv p = (c, t) \<Longrightarrow> toyDecrypt key iv t c = Some p"
  by (auto simp: toyEncrypt_def toyDecrypt_def o_def)

text \<open>
  Claim C1 (AEAD round-trip). For every plaintext buffer \<open>p\<close> and passphrase \<open>k\<close>, and for
  every 32-byte salt and 16-byte IV drawn during encryption, \<open>decryptBuffer\<close> applied to
  the output of \<open>encryptBuffer\<close> under the same passphrase returns exactly \<open>p\<close>. The output
  is framed as salt, IV, tag, ciphertext and \<open>decryptBuffer\<close> slices the same offsets.
  The host cipher is assumed to produce a 16-byte tag and to decrypt what it encrypted
  under the same key, IV and tag.
\<close>

theorem encrypt_decrypt_roundtrip:
  assumes salt: "length salt = 32"
    and iv: "length iv = 16"
    and enc: "gcmEncrypt P (deriveKey P k salt) iv p = (c, t)"
    and tag: "length t = 16"
    and host: "gcmDecrypt P (deriveKey P k salt) iv t c = Some p"
  shows "decryptBuffer P (encryptBuffer P salt iv p k) k = Inr p"
proof -
  have "encryptBuffer P salt iv p k = salt @ iv @ t @ c"
    using enc by (simp add: encryptBuffer_def)
  then show ?thesis
    using decryptBuffer_frame [OF salt iv tag, of P c k] host by simp
qed

theorem encrypt_decrypt_roundtrip_witness:
  "decryptBuffer toyPrims
     (encryptBuffer toyPrims (replicate 32 7) (replicate 16 9) [1, 2, 3] ''key'') ''key''
   = Inr [1, 2, 3]"
proof -
  obtain c t where enc:
    "gcmEncrypt toyPrims (deriveKey toyPrims ''key'' (replicate 32 7)) (replicate 16 9) [1, 2, 3] = (c, t)"
    by fastforce
  then have e: "toyEncrypt (deriveKey toyPrims ''key'' (replicate 32 7)) (replicate 16 9) [1, 2, 3] = (c, t)"
    by (simp add: toyPrims_def)
  have tag: "length t = 16"
    using e by (auto simp: toyEncrypt_def toyTag_def)
  have host: "gcmDecrypt toyPrims (deriveKey toyPrims ''key'' (replicate 32 7)) (replicate 16 9) t c = Some [1, 2, 3]"
    using toyDecrypt_toyEncrypt [OF e] by (simp add: toyPrims_def)
  show ?thesis
    using encrypt_decrypt_roundtrip [OF _ _ enc tag host] by simp
qed

section \<open>Token resolution\<close>

lemma mediaError_ownership:
  "mediaError ''Vault token does not belong to the requesting user'' =
     Response 403 (Message ''Vault token does not belong to the requesting user'')"
  by (simp add: mediaError_def errorDispatch_def)

lemma thumbnailError_ownership:
  "thumbnailError ''Vault token does not belong to the requesting user'' =
     Response 403 (Message ''Vault token does not belong to the requesting user'')"
  by (simp add: thumbnailError_def errorDispatch_def)

lemma resolve_absent:
  "extractVaultToken hdr = Some tok \<Longrightarrow> store tok = None \<Longrightarrow>
   resolveVaultToken m store hdr uid now =
     (Reply (Response 401 (Message ''Invalid or expired vault token'')), store)"
  by (simp add: resolveVaultToken_def getVaultPassphrase_def truthy_def)

lemma resolve_expired:
  "extractVaultToken hdr = Some tok \<Longrightarrow> store tok = Some d \<Longrightarrow> now > expiresAt d \<Longrightarrow>
   resolveVaultToken m store hdr uid now =
     (Reply (Response 401 (Message ''Invalid or expired vault token'')), store(tok := None))"
  by (simp add: resolveVaultToken_def getVaultPassphrase_def truthy_def)

lemma resolve_foreign:
  "extractVaultToken hdr = Some tok \<Longrightarrow> store tok = Some d \<Longrightarrow> \<not> now > expiresAt d \<Longrightarrow>
   tokenUserId d \<noteq> uid \<Longrightarrow>
   resolveVaultToken m store hdr uid now =
     (Thrown ''Vault token does not belong to the requesting user'', store)"
  by (simp add: resolveVaultToken_def getVaultPassphrase_def)

lemma resolve_owner:
  "extractVaultToken hdr = Some tok \<Longrightarrow> store tok = Some d \<Longrightarrow> \<not> now > expiresAt d \<Longrightarrow>
   tokenUserId d = uid \<Longrightarrow> tokenPassphrase d \<noteq> [] \<Longrightarrow>
   resolveVaultToken m store hdr uid now = (Resolved (Some (tokenPassphrase d)), store)"
  by (simp add: resolveVaultToken_def getVaultPassphrase_def truthy_def)

lemma getVaultPassphrase_expired:
  "store tok = Some d \<Longrightarrow> now > expiresAt d \<Longrightarrow>
   getVaultPassphrase store tok uid now = (Inr None, store(tok := None))"
  by (simp add: getVaultPassphrase_def)

lemma getVaultPassphrase_absent:
  "store tok = None \<Longrightarrow> getVaultPassphrase store tok uid now = (Inr None, store)"
  by (simp add: getVaultPassphrase_def)

lemma sweep_expired_cases:
  assumes "store tok = Some d" and "now > expiresAt d"
  shows "sweep s store tok = None \<or> sweep s store tok = Some d"
  using assms by (simp add: sweep_def)

lemma resolve_after_sweep:
  assumes hdr: "extractVaultToken hdr = Some tok"
    and present: "store tok = Some d" and expired: "now > expiresAt d"
  shows "fst (resolveVaultToken m (sweep s store) hdr uid now) =
     Reply (Response 401 (Message ''Invalid or expired vault token''))"
proof (cases "sweep s store tok")
  case None
  then show ?thesis
    using resolve_absent [where store = "sweep s store", OF hdr] by simp
next
  case (Some d')
  then have "d' = d" using present by (simp add: sweep_def split: if_splits)
  then show ?thesis
    using resolve_expired [where store = "sweep s store", OF hdr] Some expired by simp
qed

lemma exampleId_valid: "isValidUUID exampleId"
  by (simp add: exampleId_def isValidUUID_def uuidPattern_def isHexChar_def eval_nat_numeral)

lemma example_header: "extractVaultToken (Some ''Bearer vault:T1'') = Some ''T1''"
  by (simp add: extractVaultToken_def isLineTerminator_def)

lemma tokenServer_T1: "vaultTokenStore tokenServer ''T1'' = Some aliceToken"
  by (simp add: tokenServer_def)

text \<open>
  Claim C3 (token ownership isolation). A token that is in the token table and not
  expired, presented by a caller other than the user it was minted for, makes
  \<open>getVaultPassphrase\<close> throw the ownership error and leave the table as it was; the
  stored passphrase is not returned. Both read routes answer 403 with that message, whereas
  the same request with the token absent from the table is answered 401.
\<close>

theorem token_ownership_isolation:
  assumes present: "vaultTokenStore st tok = Some d"
    and live: "\<not> now > expiresAt d"
    and foreign: "tokenUserId d \<noteq> caller"
    and uuid: "isValidUUID mid"
    and hdr: "extractVaultToken hdr = Some tok"
  shows "getVaultPassphrase (vaultTokenStore st) tok caller now =
           (Inl ''Vault token does not belong to the requesting user'', vaultTokenStore st)
       \<and> fst (getVaultPassphrase (vaultTokenStore st) tok caller now) \<noteq> Inr (Some (tokenPassphrase d))
       \<and> getMediaRoute P st caller mid (Some ''true'') hdr now =
           (Response 403 (Message ''Vault token does not belong to the requesting user''), st)
       \<and> getThumbnailRoute P st caller mid (Some ''true'') hdr now =
           (Response 403 (Message ''Vault token does not belong to the requesting user''), st)
       \<and> fst (getMediaRoute P (st\<lparr>vaultTokenStore := (vaultTokenStore st)(tok := None)\<rparr>)
                caller mid (Some ''true'') hdr now) =
           Response 401 (Message ''Invalid or expired vault token'')
       \<and> fst (getThumbnailRoute P (st\<lparr>vaultTokenStore := (vaultTokenStore st)(tok := None)\<rparr>)
                caller mid (Some ''true'') hdr now) =
           Response 401 (Message ''Invalid or expired vault token'')"
proof -
  have g: "getVaultPassphrase (vaultTokenStore st) tok caller now =
           (Inl ''Vault token does not belong to the requesting user'', vaultTokenStore st)"
    using present live foreign by (simp add: getVaultPassphrase_def)
  have r: "\<And>m. resolveVaultToken m (vaultTokenStore st) hdr caller now =
     (Thrown ''Vault token does not belong to the requesting user'', vaultTokenStore st)"
    using resolve_foreign [where store = "vaultTokenStore st", OF hdr present live foreign] .
  have a: "\<And>m. resolveVaultToken m ((vaultTokenStore st)(tok := None)) hdr caller now =
     (Reply (Response 401 (Message ''Invalid or expired vault token'')), (vaultTokenStore st)(tok := None))"
    using resolve_absent [where store = "(vaultTokenStore st)(tok := None)", OF hdr] by simp
  have m: "getMediaRoute P st caller mid (Some ''true'') hdr now =
           (Response 403 (Message ''Vault token does not belong to the requesting user''), st)"
    using uuid by (simp add: getMediaRoute_def r mediaError_ownership)
  have t: "getThumbnailRoute P st caller mid (Some ''true'') hdr now =
           (Response 403 (Message ''Vault token does not belong to the requesting user''), st)"
    using uuid by (simp add: getThumbnailRoute_def r thumbnailError_ownership)
  have m': "fst (getMediaRoute P (st\<lparr>vaultTokenStore := (vaultTokenStore st)(tok := None)\<rparr>)
                caller mid (Some ''true'') hdr now) =
           Response 401 (Message ''Invalid or expired vault token'')"
    using uuid by (simp add: getMediaRoute_def a)
  have t': "fst (getThumbnailRoute P (st\<lparr>vaultTokenStore := (vaultTokenStore st)(tok := None)\<rparr>)
                caller mid (Some ''true'') hdr now) =
           Response 401 (Message ''Invalid or expired vault token'')"
    using uuid by (simp add: getThumbnailRoute_def a)
  from g m t m' t' show ?thesis by simp
qed

theorem token_ownership_isolation_witness:
  "getMediaRoute toyPrims tokenServer ''bob'' exampleId (Some ''true'') (Some ''Bearer vault:T1'') 1000 =
     (Response 403 (Message ''Vault token does not belong to the requesting user''), tokenServer)
   \<and> fst (getVaultPassphrase (vaultTokenStore tokenServer) ''T1'' ''bob'' 1000) \<noteq>
       Inr (Some ''Tr0ub4dor&3'')"
proof -
  have live: "\<not> 1000 > expiresAt aliceToken" by (simp add: aliceToken_def)
  have foreign: "tokenUserId aliceToken \<noteq> ''bob''" by (simp add: aliceToken_def)
  show ?thesis
    using token_ownership_isolation [where st = tokenServer and P = toyPrims,
        OF tokenServer_T1 live foreign exampleId_valid example_header]
    by (simp add: aliceToken_def)
qed

text \<open>
  Claim C7 (lazy expiry enforcement). A token whose \<open>expiresAt\<close> lies before the time of
  the access is evicted by \<open>getVaultPassphrase\<close>, which returns \<open>null\<close>; the result is
  the same on the table as any earlier sweep (at any time \<open>s\<close>) left it, and any later
  attempt on the table after the eviction is rejected as well. Both read routes answer 401
  with the same message, swept or not.
\<close>

theorem lazy_expiry:
  assumes present: "vaultTokenStore st tok = Some d"
    and expired: "now > expiresAt d"
    and uuid: "isValidUUID mid"
    and hdr: "extractVaultToken hdr = Some tok"
  shows "getVaultPassphrase (vaultTokenStore st) tok caller now =
           (Inr None, (vaultTokenStore st)(tok := None))
       \<and> fst (getVaultPassphrase (sweep s (vaultTokenStore st)) tok caller now) = Inr None
       \<and> fst (getVaultPassphrase (snd (getVaultPassphrase (vaultTokenStore st) tok caller now))
                tok caller' now') = Inr None
       \<and> fst (getMediaRoute P st caller mid (Some ''true'') hdr now) =
           Response 401 (Message ''Invalid or expired vault token'')
       \<and> fst (getMediaRoute P (st\<lparr>vaultTokenStore := sweep s (vaultTokenStore st)\<rparr>)
                caller mid (Some ''true'') hdr now) =
           Response 401 (Message ''Invalid or expired vault token'')
       \<and> fst (getThumbnailRoute P st caller mid (Some ''true'') hdr now) =
           Response 401 (Message ''Invalid or expired vault token'')
       \<and> fst (getThumbnailRoute P (st\<lparr>vaultTokenStore := sweep s (vaultTokenStore st)\<rparr>)
                caller mid (Some ''true'') hdr now) =
           Response 401 (Message ''Invalid or expired vault token'')"
proof -
  have g: "getVaultPassphrase (vaultTokenStore st) tok caller now =
           (Inr None, (vaultTokenStore st)(tok := None))"
    by (rule getVaultPassphrase_expired [where store = "vaultTokenStore st", OF present expired])
  have sw: "fst (getVaultPassphrase (sweep s (vaultTokenStore st)) tok caller now) = Inr None"
    using sweep_expired_cases [where store = "vaultTokenStore st", OF present expired, of s] expired
    by (auto simp: getVaultPassphrase_def)
  have again: "fst (getVaultPassphrase (snd (getVaultPassphrase (vaultTokenStore st) tok caller now))
                tok caller' now') = Inr None"
    unfolding g by (simp add: getVaultPassphrase_absent)
  have r: "\<And>m. resolveVaultToken m (vaultTokenStore st) hdr caller now =
     (Reply (Response 401 (Message ''Invalid or expired vault token'')), (vaultTokenStore st)(tok := None))"
    using resolve_expired [where store = "vaultTokenStore st", OF hdr present expired] .
  have rs: "\<And>m. fst (resolveVaultToken m (sweep s (vaultTokenStore st)) hdr caller now) =
     Reply (Response 401 (Message ''Invalid or expired vault token''))"
    using resolve_after_sweep [where store = "vaultTokenStore st", OF hdr present expired] .
  have m: "fst (getMediaRoute P st caller mid (Some ''true'') hdr now) =
           Response 401 (Message ''Invalid or expired vault token'')"
    using uuid by (simp add: getMediaRoute_def r)
  have t: "fst (getThumbnailRoute P st caller mid (Some ''true'') hdr now) =
           Response 401 (Message ''Invalid or expired vault token'')"
    using uuid by (simp add: getThumbnailRoute_def r)
  have ms: "fst (getMediaRoute P (st\<lparr>vaultTokenStore := sweep s (vaultTokenStore st)\<rparr>)
                caller mid (Some ''true'') hdr now) =
           Response 401 (Message ''Invalid or expired vault token'')"
    using uuid rs [of "''Vault authorization token required for encrypted content''"]
    by (cases "resolveVaultToken ''Vault authorization token required for encrypted content''
                 (sweep s (vaultTokenStore st)) hdr caller now")
       (simp add: getMediaRoute_def Let_def)
  have ts: "fst (getThumbnailRoute P (st\<lparr>vaultTokenStore := sweep s (vaultTokenStore st)\<rparr>)
                caller mid (Some ''true'') hdr now) =
           Response 401 (Message ''Invalid or expired vault token'')"
    using uuid rs [of "''Vault authorization token required for encrypted content''"]
    by (cases "resolveVaultToken ''Vault authorization token required for encrypted content''
                 (sweep s (vaultTokenStore st)) hdr caller now")
       (simp add: getThumbnailRoute_def Let_def)
  from g sw again m ms t ts show ?thesis by blast
qed

theorem lazy_expiry_witness:
  "fst (getMediaRoute toyPrims tokenServer ''alice'' exampleId (Some ''true'') (Some ''Bearer vault:T1'') 1800001) =
     Response 401 (Message ''Invalid or expired vault token'')
   \<and> fst (getMediaRoute toyPrims (tokenServer\<lparr>vaultTokenStore := sweep 1800001 (vaultTokenStore tokenServer)\<rparr>)
       ''alice'' exampleId (Some ''true'') (Some ''Bearer vault:T1'') 1800001) =
     Response 401 (Message ''Invalid or expired vault token'')"
proof -
  have expired: "1800001 > expiresAt aliceToken" by (simp add: aliceToken_def)
  show ?thesis
    using lazy_expiry [where st = tokenServer and P = toyPrims and s = 1800001 and caller = "''alice''",
        OF tokenServer_T1 expired exampleId_valid example_header]
    by simp
qed

text \<open>
  Claim C10 (expiry is checked before ownership). For a token that is in the table but
  expired and that belongs to another user than the caller, \<open>getVaultPassphrase\<close> evicts
  it and returns \<open>null\<close>; both read routes answer 401 (invalid or expired), not the 403 of
  the ownership violation.
\<close>

theorem expiry_before_ownership:
  assumes present: "vaultTokenStore st tok = Some d"
    and expired: "now > expiresAt d"
    and foreign: "tokenUserId d \<noteq> caller"
    and uuid: "isValidUUID mid"
    and hdr: "extractVaultToken hdr = Some tok"
  shows "getVaultPassphrase (vaultTokenStore st) tok caller now =
           (Inr None, (vaultTokenStore st)(tok := None))
       \<and> getMediaRoute P st caller mid (Some ''true'') hdr now =
           (Response 401 (Message ''Invalid or expired vault token''),
            st\<lparr>vaultTokenStore := (vaultTokenStore st)(tok := None)\<rparr>)
       \<and> getThumbnailRoute P st caller mid (Some ''true'') hdr now =
           (Response 401 (Message ''Invalid or expired vault token''),
            st\<lparr>vaultTokenStore := (vaultTokenStore st)(tok := None)\<rparr>)
       \<and> status (fst (getMediaRoute P st caller mid (Some ''true'') hdr now)) \<noteq> 403
       \<and> status (fst (getThumbnailRoute P st caller mid (Some ''true'') hdr now)) \<noteq> 403"
proof -
  have r: "\<And>m. resolveVaultToken m (vaultTokenStore st) hdr caller now =
     (Reply (Response 401 (Message ''Invalid or expired vault token'')), (vaultTokenStore st)(tok := None))"
    using resolve_expired [where store = "vaultTokenStore st", OF hdr present expired] .
  have m: "getMediaRoute P st caller mid (Some ''true'') hdr now =
           (Response 401 (Message ''Invalid or expired vault token''),
            st\<lparr>vaultTokenStore := (vaultTokenStore st)(tok := None)\<rparr>)"
    using uuid by (simp add: getMediaRoute_def r)
  have t: "getThumbnailRoute P st caller mid (Some ''true'') hdr now =
           (Response 401 (Message ''Invalid or expired vault token''),
            st\<lparr>vaultTokenStore := (vaultTokenStore st)(tok := None)\<rparr>)"
    using uuid by (simp add: getThumbnailRoute_def r)
  show ?thesis
    using getVaultPassphrase_expired [where store = "vaultTokenStore st", OF present expired, of caller] m t by simp
qed

theorem expiry_before_ownership_witness:
  "getMediaRoute toyPrims tokenServer ''bob'' exampleId (Some ''true'') (Some ''Bearer vault:T1'') 1800001 =
     (Response 401 (Message ''Invalid or expired vault token''),
      tokenServer\<lparr>vaultTokenStore := (vaultTokenStore tokenServer)(''T1'' := None)\<rparr>)"
proof -
  have expired: "1800001 > expiresAt aliceToken" by (simp add: aliceToken_def)
  have foreign: "tokenUserId aliceToken \<noteq> ''bob''" by (simp add: aliceToken_def)
  show ?thesis
    using expiry_before_ownership [where st = tokenServer and P = toyPrims,
        OF tokenServer_T1 expired foreign exampleId_valid example_header]
    by simp
qed

text \<open>The upload route resolves the token in the same way, but its \<open>catch\<close> does not
  look at the message: a live token of another user is answered 500 there.\<close>

lemma upload_ownership_violation_status:
  assumes nonempty: "files \<noteq> []"
    and present: "vaultTokenStore st tok = Some d"
    and live: "\<not> now > expiresAt d"
    and foreign: "tokenUserId d \<noteq> caller"
    and hdr: "extractVaultToken hdr = Some tok"
  shows "uploadRoute P st caller files ''true'' cat hdr now keyBytes =
     (Response 500 (Message ''Failed to upload media files''), st)"
proof -
  have r: "\<And>m. resolveVaultToken m (vaultTokenStore st) hdr caller now =
     (Thrown ''Vault token does not belong to the requesting user'', vaultTokenStore st)"
    using resolve_foreign [where store = "vaultTokenStore st", OF hdr present live foreign] .
  show ?thesis
    using nonempty by (simp add: uploadRoute_def r)
qed

section \<open>The access gate\<close>

lemma mediaError_requires_decryption:
  "mediaError ''Content is encrypted and requires decryption'' =
     Response 403 (Message ''Content is encrypted and requires decryption'')"
  by (simp add: mediaError_def errorDispatch_def)

lemma getMediaContent_plain:
  assumes "getMediaFile st mid = Some f" and "uploadedBy f = caller" and "\<not> isEncrypted f"
  shows "getMediaContent P st mid caller decrypt vp =
     Inr (Some \<lparr>contentBuffer = binaryData f, contentMimeType = mimeType f,
                 contentFilename = originalName f\<rparr>)"
  using assms by (simp add: getMediaContent_def)

lemma getMediaContent_locked:
  assumes "getMediaFile st mid = Some f" and "uploadedBy f = caller" and "isEncrypted f"
  shows "getMediaContent P st mid caller False vp =
     Inl ''Content is encrypted and requires decryption''"
  using assms by (simp add: getMediaContent_def)

lemma getThumbnail_plain:
  assumes "getMediaFile st mid = Some f" and "uploadedBy f = caller" and "\<not> isEncrypted f"
  shows "getThumbnail P st mid caller decrypt vp = Inr (thumbnailData f)"
  using assms by (simp add: getThumbnail_def split: option.splits)

lemma getThumbnail_locked:
  assumes "getMediaFile st mid = Some f" and "uploadedBy f = caller" and "isEncrypted f"
  shows "getThumbnail P st mid caller False vp =
     Inr (map_option (\<lambda>t. placeholderJpeg P) (thumbnailData f))"
  using assms by (simp add: getThumbnail_def split: option.splits)

lemma aliceServer_file: "getMediaFile aliceServer exampleId = Some lockedFile"
  by (simp add: getMediaFile_def aliceServer_def lockedFile_def)

lemma aliceServer_T1: "vaultTokenStore aliceServer ''T1'' = Some aliceToken"
  by (simp add: aliceServer_def)

lemma resolve_missing:
  "extractVaultToken hdr = None \<Longrightarrow>
   resolveVaultToken m store hdr uid now = (Reply (Response 401 (Message m)), store)"
  by (simp add: resolveVaultToken_def)

lemma setHeaders_legal:
  "legalHeaderValue (contentMimeType c) \<Longrightarrow> legalHeaderValue (contentFilename c) \<Longrightarrow>
   setHeaders c = None"
  by (simp add: setHeaders_def)

lemma plainServer_file: "getMediaFile plainServer exampleId = Some plainFile"
  by (simp add: getMediaFile_def plainServer_def plainFile_def)

text \<open>
  Claim C8 (access gate without decryption), as the code has it. For a stored object owned
  by the caller, in \<open>getMediaContent\<close> and \<open>getThumbnail\<close>: when \<open>isEncrypted\<close> is false,
  the content read returns the stored bytes and the thumbnail read the stored thumbnail,
  whatever the decrypt flag and the passphrase; when \<open>isEncrypted\<close> is true and decryption
  is not requested, the content read fails with the content-requires-decryption error and
  the thumbnail read returns the placeholder image in place of the stored thumbnail (and
  \<open>null\<close> when the object has no thumbnail). On the routes, a request whose \<open>decrypt\<close>
  parameter is not \<open>'true'\<close> gets this whatever its \<open>Authorization\<close> header: 200 with the
  stored bytes (for a row whose \<open>mimeType\<close> and \<open>originalName\<close> are legal header values),
  403 with that error, 200 with the placeholder. A request with \<open>decrypt=true\<close> is held
  to the token first, also for an object that is not encrypted: 401 without a vault token
  in the header or with a token that is not in the table, and the stored bytes with a live
  token of the caller.
\<close>

theorem access_gate_without_decryption:
  assumes stored: "getMediaFile st mid = Some f"
    and owner: "uploadedBy f = caller"
  shows "(\<not> isEncrypted f \<longrightarrow>
            getMediaContent P st mid caller decrypt vp =
              Inr (Some \<lparr>contentBuffer = binaryData f, contentMimeType = mimeType f,
                          contentFilename = originalName f\<rparr>)
          \<and> getThumbnail P st mid caller decrypt vp = Inr (thumbnailData f))
       \<and> (isEncrypted f \<longrightarrow>
            getMediaContent P st mid caller False vp =
              Inl ''Content is encrypted and requires decryption''
          \<and> getThumbnail P st mid caller False vp =
              Inr (map_option (\<lambda>t. placeholderJpeg P) (thumbnailData f)))
       \<and> (isValidUUID mid \<and> q \<noteq> Some ''true'' \<longrightarrow>
            (\<not> isEncrypted f \<longrightarrow>
               (legalHeaderValue (mimeType f) \<and> legalHeaderValue (originalName f) \<longrightarrow>
                  getMediaRoute P st caller mid q hdr now =
                    (Response 200 (FileBody (mimeType f) (originalName f) (binaryData f)),
                     logActivity st caller ''DOWNLOAD_MEDIA'' (Some mid)))
             \<and> getThumbnailRoute P st caller mid q hdr now =
                 (case thumbnailData f of
                    None \<Rightarrow> Response 404 (Message ''Thumbnail not found'')
                  | Some t \<Rightarrow> Response 200 (ThumbnailBody t), st))
          \<and> (isEncrypted f \<longrightarrow>
               getMediaRoute P st caller mid q hdr now =
                 (Response 403 (Message ''Content is encrypted and requires decryption''), st)
             \<and> getThumbnailRoute P st caller mid q hdr now =
                 (case thumbnailData f of
                    None \<Rightarrow> Response 404 (Message ''Thumbnail not found'')
                  | Some t \<Rightarrow> Response 200 (ThumbnailBody (placeholderJpeg P)), st)))
       \<and> (isValidUUID mid \<and> extractVaultToken hdr = None \<longrightarrow>
            getMediaRoute P st caller mid (Some ''true'') hdr now =
              (Response 401 (Message ''Vault authorization token required for encrypted content''), st)
          \<and> getThumbnailRoute P st caller mid (Some ''true'') hdr now =
              (Response 401 (Message ''Vault authorization token required for encrypted content''), st))
       \<and> (isValidUUID mid \<and> extractVaultToken hdr = Some tok \<and> vaultTokenStore st tok = None \<longrightarrow>
            getMediaRoute P st caller mid (Some ''true'') hdr now =
              (Response 401 (Message ''Invalid or expired vault token''), st)
          \<and> getThumbnailRoute P st caller mid (Some ''true'') hdr now =
              (Response 401 (Message ''Invalid or expired vault token''), st))
       \<and> (isValidUUID mid \<and> extractVaultToken hdr = Some tok \<and> vaultTokenStore st tok = Some d
            \<and> \<not> now > expiresAt d \<and> tokenUserId d = caller \<and> tokenPassphrase d \<noteq> []
            \<and> \<not> isEncrypted f \<longrightarrow>
            (legalHeaderValue (mimeType f) \<and> legalHeaderValue (originalName f) \<longrightarrow>
               getMediaRoute P st caller mid (Some ''true'') hdr now =
                 (Response 200 (FileBody (mimeType f) (originalName f) (binaryData f)),
                  logActivity st caller ''DOWNLOAD_MEDIA'' (Some mid)))
          \<and> getThumbnailRoute P st caller mid (Some ''true'') hdr now =
              (case thumbnailData f of
                 None \<Rightarrow> Response 404 (Message ''Thumbnail not found'')
               | Some t \<Rightarrow> Response 200 (ThumbnailBody t), st))"
proof -
  have d: "q \<noteq> Some ''true'' \<Longrightarrow> (case q of None \<Rightarrow> ''false'' | Some x \<Rightarrow> x) \<noteq> ''true''"
    by (cases q) simp_all
  have c1: "\<not> isEncrypted f \<longrightarrow>
            getMediaContent P st mid caller decrypt vp =
              Inr (Some \<lparr>contentBuffer = binaryData f, contentMimeType = mimeType f,
                          contentFilename = originalName f\<rparr>)
          \<and> getThumbnail P st mid caller decrypt vp = Inr (thumbnailData f)"
    by (simp add: getMediaContent_plain [OF stored owner] getThumbnail_plain [OF stored owner])
  have c2: "isEncrypted f \<longrightarrow>
            getMediaContent P st mid caller False vp =
              Inl ''Content is encrypted and requires decryption''
          \<and> getThumbnail P st mid caller False vp =
              Inr (map_option (\<lambda>t. placeholderJpeg P) (thumbnailData f))"
    by (simp add: getMediaContent_locked [OF stored owner] getThumbnail_locked [OF stored owner])
  have plain: "\<not> isEncrypted f \<Longrightarrow> isValidUUID mid \<Longrightarrow> q \<noteq> Some ''true'' \<Longrightarrow>
      legalHeaderValue (mimeType f) \<Longrightarrow> legalHeaderValue (originalName f) \<Longrightarrow>
      getMediaRoute P st caller mid q hdr now =
        (Response 200 (FileBody (mimeType f) (originalName f) (binaryData f)),
         logActivity st caller ''DOWNLOAD_MEDIA'' (Some mid))"
    using d
    by (simp add: getMediaRoute_def Let_def getMediaContent_plain [OF stored owner]
        setHeaders_legal)
  have plainThumb: "\<not> isEncrypted f \<Longrightarrow> isValidUUID mid \<Longrightarrow> q \<noteq> Some ''true'' \<Longrightarrow>
      getThumbnailRoute P st caller mid q hdr now =
        (case thumbnailData f of
           None \<Rightarrow> Response 404 (Message ''Thumbnail not found'')
         | Some t \<Rightarrow> Response 200 (ThumbnailBody t), st)"
    using d
    by (cases "thumbnailData f")
       (simp_all add: getThumbnailRoute_def Let_def getThumbnail_plain [OF stored owner])
  have locked: "isEncrypted f \<Longrightarrow> isValidUUID mid \<Longrightarrow> q \<noteq> Some ''true'' \<Longrightarrow>
      getMediaRoute P st caller mid q hdr now =
        (Response 403 (Message ''Content is encrypted and requires decryption''), st)"
    using d
    by (simp add: getMediaRoute_def Let_def getMediaContent_locked [OF stored owner]
        mediaError_requires_decryption)
  have lockedThumb: "isEncrypted f \<Longrightarrow> isValidUUID mid \<Longrightarrow> q \<noteq> Some ''true'' \<Longrightarrow>
      getThumbnailRoute P st caller mid q hdr now =
        (case thumbnailData f of
           None \<Rightarrow> Response 404 (Message ''Thumbnail not found'')
         | Some t \<Rightarrow> Response 200 (ThumbnailBody (placeholderJpeg P)), st)"
    using d
    by (cases "thumbnailData f")
       (simp_all add: getThumbnailRoute_def Let_def getThumbnail_locked [OF stored owner])
  have c3: "isValidUUID mid \<and> q \<noteq> Some ''true'' \<longrightarrow>
            (\<not> isEncrypted f \<longrightarrow>
               (legalHeaderValue (mimeType f) \<and> legalHeaderValue (originalName f) \<longrightarrow>
                  getMediaRoute P st caller mid q hdr now =
                    (Response 200 (FileBody (mimeType f) (originalName f) (binaryData f)),
                     logActivity st caller ''DOWNLOAD_MEDIA'' (Some mid)))
             \<and> getThumbnailRoute P st caller mid q hdr now =
                 (case thumbnailData f of
                    None \<Rightarrow> Response 404 (Message ''Thumbnail not found'')
                  | Some t \<Rightarrow> Response 200 (ThumbnailBody t), st))
          \<and> (isEncrypted f \<longrightarrow>
               getMediaRoute P st caller mid q hdr now =
                 (Response 403 (Message ''Content is encrypted and requires decryption''), st)
             \<and> getThumbnailRoute P st caller mid q hdr now =
                 (case thumbnailData f of
                    None \<Rightarrow> Response 404 (Message ''Thumbnail not found'')
                  | Some t \<Rightarrow> Response 200 (ThumbnailBody (placeholderJpeg P)), st))"
  proof (intro impI conjI; elim conjE)
    assume "isValidUUID mid" "q \<noteq> Some ''true''" "\<not> isEncrypted f"
      "legalHeaderValue (mimeType f)" "legalHeaderValue (originalName f)"
    then show "getMediaRoute P st caller mid q hdr now =
        (Response 200 (FileBody (mimeType f) (originalName f) (binaryData f)),
         logActivity st caller ''DOWNLOAD_MEDIA'' (Some mid))"
      using plain by simp
  next
    assume "isValidUUID mid" "q \<noteq> Some ''true''" "\<not> isEncrypted f"
    then show "getThumbnailRoute P st caller mid q hdr now =
        (case thumbnailData f of
           None \<Rightarrow> Response 404 (Message ''Thumbnail not found'')
         | Some t \<Rightarrow> Response 200 (ThumbnailBody t), st)"
      using plainThumb by simp
  next
    assume "isValidUUID mid" "q \<noteq> Some ''true''" "isEncrypted f"
    then show "getMediaRoute P st caller mid q hdr now =
        (Response 403 (Message ''Content is encrypted and requires decryption''), st)"
      using locked by simp
  next
    assume "isValidUUID mid" "q \<noteq> Some ''true''" "isEncrypted f"
    then show "getThumbnailRoute P st caller mid q hdr now =
        (case thumbnailData f of
           None \<Rightarrow> Response 404 (Message ''Thumbnail not found'')
         | Some t \<Rightarrow> Response 200 (ThumbnailBody (placeholderJpeg P)), st)"
      using lockedThumb by simp
  qed
  have c4: "isValidUUID mid \<and> extractVaultToken hdr = None \<longrightarrow>
      getMediaRoute P st caller mid (Some ''true'') hdr now =
        (Response 401 (Message ''Vault authorization token required for encrypted content''), st)
      \<and> getThumbnailRoute P st caller mid (Some ''true'') hdr now =
        (Response 401 (Message ''Vault authorization token required for encrypted content''), st)"
    by (simp add: getMediaRoute_def getThumbnailRoute_def resolve_missing)
  have c5: "isValidUUID mid \<and> extractVaultToken hdr = Some tok \<and> vaultTokenStore st tok = None \<longrightarrow>
      getMediaRoute P st caller mid (Some ''true'') hdr now =
        (Response 401 (Message ''Invalid or expired vault token''), st)
      \<and> getThumbnailRoute P st caller mid (Some ''true'') hdr now =
        (Response 401 (Message ''Invalid or expired vault token''), st)"
    using resolve_absent [where store = "vaultTokenStore st" and hdr = hdr and tok = tok]
    by (simp add: getMediaRoute_def getThumbnailRoute_def)
  have c6: "isValidUUID mid \<and> extractVaultToken hdr = Some tok \<and> vaultTokenStore st tok = Some d
            \<and> \<not> now > expiresAt d \<and> tokenUserId d = caller \<and> tokenPassphrase d \<noteq> []
            \<and> \<not> isEncrypted f \<longrightarrow>
            (legalHeaderValue (mimeType f) \<and> legalHeaderValue (originalName f) \<longrightarrow>
               getMediaRoute P st caller mid (Some ''true'') hdr now =
                 (Response 200 (FileBody (mimeType f) (originalName f) (binaryData f)),
                  logActivity st caller ''DOWNLOAD_MEDIA'' (Some mid)))
          \<and> getThumbnailRoute P st caller mid (Some ''true'') hdr now =
              (case thumbnailData f of
                 None \<Rightarrow> Response 404 (Message ''Thumbnail not found'')
               | Some t \<Rightarrow> Response 200 (ThumbnailBody t), st)"
  proof (intro impI, elim conjE)
    assume uuid: "isValidUUID mid" and hdr: "extractVaultToken hdr = Some tok"
      and tk: "vaultTokenStore st tok = Some d" and live: "\<not> now > expiresAt d"
      and own: "tokenUserId d = caller" and pw: "tokenPassphrase d \<noteq> []"
      and plainf: "\<not> isEncrypted f"
    have r: "\<And>m. resolveVaultToken m (vaultTokenStore st) hdr caller now =
        (Resolved (Some (tokenPassphrase d)), vaultTokenStore st)"
      using resolve_owner [where store = "vaultTokenStore st", OF hdr tk live own pw] .
    have m: "legalHeaderValue (mimeType f) \<and> legalHeaderValue (originalName f) \<longrightarrow>
        getMediaRoute P st caller mid (Some ''true'') hdr now =
          (Response 200 (FileBody (mimeType f) (originalName f) (binaryData f)),
           logActivity st caller ''DOWNLOAD_MEDIA'' (Some mid))"
      using uuid plainf
      by (simp add: getMediaRoute_def r Let_def getMediaContent_plain [OF stored owner]
          setHeaders_legal)
    have t: "getThumbnailRoute P st caller mid (Some ''true'') hdr now =
        (case thumbnailData f of
           None \<Rightarrow> Response 404 (Message ''Thumbnail not found'')
         | Some t \<Rightarrow> Response 200 (ThumbnailBody t), st)"
      using uuid plainf
      by (cases "thumbnailData f")
         (simp_all add: getThumbnailRoute_def r Let_def getThumbnail_plain [OF stored owner])
    from m t show "(legalHeaderValue (mimeType f) \<and> legalHeaderValue (originalName f) \<longrightarrow>
               getMediaRoute P st caller mid (Some ''true'') hdr now =
                 (Response 200 (FileBody (mimeType f) (originalName f) (binaryData f)),
                  logActivity st caller ''DOWNLOAD_MEDIA'' (Some mid)))
          \<and> getThumbnailRoute P st caller mid (Some ''true'') hdr now =
              (case thumbnailData f of
                 None \<Rightarrow> Response 404 (Message ''Thumbnail not found'')
               | Some t \<Rightarrow> Response 200 (ThumbnailBody t), st)"
      by (rule conjI)
  qed
  show ?thesis
    by (intro conjI c1 c2 c3 c4 c5 c6)
qed

theorem access_gate_without_decryption_witness:
  "getMediaRoute toyPrims plainServer ''alice'' exampleId None (Some ''Bearer vault:T1'') 1000 =
     (Response 200 (FileBody ''image/jpeg'' ''dog.jpg'' [1, 2, 3]),
      logActivity plainServer ''alice'' ''DOWNLOAD_MEDIA'' (Some exampleId))
   \<and> getMediaContent toyPrims aliceServer exampleId ''alice'' False None =
     Inl ''Content is encrypted and requires decryption''
   \<and> getMediaRoute toyPrims aliceServer ''alice'' exampleId None None 1000 =
     (Response 403 (Message ''Content is encrypted and requires decryption''), aliceServer)
   \<and> getThumbnailRoute toyPrims aliceServer ''alice'' exampleId None None 1000 =
     (Response 200 (ThumbnailBody (placeholderJpeg toyPrims)), aliceServer)"
proof -
  have owner: "uploadedBy lockedFile = ''alice''" by (simp add: lockedFile_def)
  have enc: "isEncrypted lockedFile" by (simp add: lockedFile_def)
  have thumb: "thumbnailData lockedFile = Some [4, 5]" by (simp add: lockedFile_def)
  have powner: "uploadedBy plainFile = ''alice''" by (simp add: plainFile_def)
  have plain: "\<not> isEncrypted plainFile" "mimeType plainFile = ''image/jpeg''"
      "originalName plainFile = ''dog.jpg''" "binaryData plainFile = [1, 2, 3]"
    by (simp_all add: plainFile_def)
  have legal: "legalHeaderValue ''image/jpeg''" "legalHeaderValue ''dog.jpg''"
    by (simp_all add: legalHeaderValue_def legalHeaderChar_def)
  show ?thesis
    using access_gate_without_decryption [where P = toyPrims and q = None and hdr = None
        and now = 1000 and vp = None and decrypt = False, OF aliceServer_file owner]
      access_gate_without_decryption [where P = toyPrims and q = None
        and hdr = "Some ''Bearer vault:T1''" and now = 1000, OF plainServer_file powner]
      enc thumb plain legal exampleId_valid
    by simp
qed

text \<open>The claim as stated, that an unencrypted object is returned regardless of any
  token, fails on the route: with \<open>decrypt=true\<close> and no vault token the owner gets 401,
  where the same request without \<open>decrypt\<close> gets the bytes.\<close>

theorem access_gate_token_counterexample:
  "getMediaFile plainServer exampleId = Some plainFile
   \<and> uploadedBy plainFile = ''alice'' \<and> \<not> isEncrypted plainFile
   \<and> getMediaRoute toyPrims plainServer ''alice'' exampleId (Some ''true'') None 1000 =
       (Response 401 (Message ''Vault authorization token required for encrypted content''),
        plainServer)
   \<and> getMediaRoute toyPrims plainServer ''alice'' exampleId (Some ''true'') None 1000 \<noteq>
       getMediaRoute toyPrims plainServer ''alice'' exampleId None None 1000"
proof -
  have a: "getMediaRoute toyPrims plainServer ''alice'' exampleId (Some ''true'') None 1000 =
       (Response 401 (Message ''Vault authorization token required for encrypted content''),
        plainServer)"
    using exampleId_valid
    by (simp add: getMediaRoute_def resolveVaultToken_def extractVaultToken_def)
  have b: "fst (getMediaRoute toyPrims plainServer ''alice'' exampleId None None 1000) =
       Response 200 (FileBody ''image/jpeg'' ''dog.jpg'' [1, 2, 3])"
    using exampleId_valid plainServer_file
    by (simp add: getMediaRoute_def getMediaContent_def plainFile_def setHeaders_def
        legalHeaderValue_def legalHeaderChar_def Let_def)
  have "fst (getMediaRoute toyPrims plainServer ''alice'' exampleId (Some ''true'') None 1000) \<noteq>
      fst (getMediaRoute toyPrims plainServer ''alice'' exampleId None None 1000)"
    unfolding a b by simp
  then have ne: "getMediaRoute toyPrims plainServer ''alice'' exampleId (Some ''true'') None 1000 \<noteq>
      getMediaRoute toyPrims plainServer ''alice'' exampleId None None 1000"
    by auto
  have row: "uploadedBy plainFile = ''alice''" "\<not> isEncrypted plainFile"
    by (simp_all add: plainFile_def)
  show ?thesis
    using plainServer_file row a ne by blast
qed

text \<open>A row whose \<open>originalName\<close> is not a legal header value: \<open>res.set\<close> throws after
  the activity is logged, and the response is 500.\<close>

lemma illegal_header_status:
  assumes stored: "getMediaFile st mid = Some f"
    and owner: "uploadedBy f = caller"
    and plain: "\<not> isEncrypted f"
    and uuid: "isValidUUID mid"
    and q: "q \<noteq> Some ''true''"
    and illegal: "\<not> legalHeaderValue (originalName f)"
  shows "getMediaRoute P st caller mid q hdr now =
     (Response 500 (Message ''Failed to serve media file''),
      logActivity st caller ''DOWNLOAD_MEDIA'' (Some mid))"
proof -
  have d: "(case q of None \<Rightarrow> ''false'' | Some x \<Rightarrow> x) \<noteq> ''true''"
    using q by (cases q) simp_all
  have e: "\<And>n. n = ''Content-Type'' \<or> n = ''Content-Disposition'' \<Longrightarrow>
      mediaError (headerError n) = Response 500 (Message ''Failed to serve media file'')"
    by (auto simp: mediaError_def errorDispatch_def headerError_def)
  show ?thesis
    using uuid d illegal plain
    by (simp add: getMediaRoute_def Let_def getMediaContent_plain [OF stored owner]
        setHeaders_def e)
qed

section \<open>Failures of the decrypt chain\<close>

lemma mediaError_corrupted:
  "mediaError ''Invalid vault passphrase or corrupted encryption data'' =
     Response 500 (Message ''Failed to serve media file'')"
  by (simp add: mediaError_def errorDispatch_def)

lemma thumbnailError_corrupted:
  "thumbnailError ''Invalid vault passphrase for thumbnail decryption'' =
     Response 403 (Message ''Invalid vault passphrase for thumbnail decryption'')"
  by (simp add: thumbnailError_def errorDispatch_def)

lemma getMediaContent_decrypt_fails:
  assumes "getMediaFile st mid = Some f" and "uploadedBy f = caller" and "isEncrypted f"
    and "pw \<noteq> []" and "unwrapAndDecrypt P f (binaryData f) pw = Inl e"
  shows "getMediaContent P st mid caller True (Some pw) =
     Inl ''Invalid vault passphrase or corrupted encryption data''"
  using assms by (simp add: getMediaContent_def truthy_def)

lemma getThumbnail_decrypt_fails:
  assumes "getMediaFile st mid = Some f" and "uploadedBy f = caller" and "isEncrypted f"
    and "thumbnailData f = Some t"
    and "pw \<noteq> []" and "unwrapAndDecrypt P f t pw = Inl e"
  shows "getThumbnail P st mid caller True (Some pw) =
     Inl ''Invalid vault passphrase for thumbnail decryption''"
  using assms by (simp add: getThumbnail_def truthy_def)

lemma lockedFile_unwrap_fails:
  "unwrapAndDecrypt toyPrims lockedFile (binaryData lockedFile) (tokenPassphrase aliceToken) =
     Inl ''Invalid encrypted buffer length''"
  by (simp add: unwrapAndDecrypt_def lockedFile_def truthy_def decryptString_def
      decryptBuffer_def toyPrims_def hexVal_def keyLength_def ivLength_def tagLength_def)

text \<open>
  Claim C4 (decryption-failure surfacing), evaluated on the code. An encrypted object of
  the caller is read through \<open>GET /api/media/:id\<close> with \<open>decrypt=true\<close> and a valid
  token of the caller, and the unwrap-and-decrypt chain fails for whatever reason.
  \<open>getMediaContent\<close> rethrows as \<open>Invalid vault passphrase or corrupted encryption data\<close>,
  a message in which the dispatch finds none of its markers, so the response is 500 with
  the generic message where the claim says 403.
\<close>

theorem decryption_failure_status:
  assumes stored: "getMediaFile st mid = Some f"
    and owner: "uploadedBy f = caller"
    and enc: "isEncrypted f"
    and uuid: "isValidUUID mid"
    and hdr: "extractVaultToken hdr = Some tok"
    and token: "vaultTokenStore st tok = Some d"
    and live: "\<not> now > expiresAt d"
    and own: "tokenUserId d = caller"
    and pw: "tokenPassphrase d \<noteq> []"
    and fails: "unwrapAndDecrypt P f (binaryData f) (tokenPassphrase d) = Inl e"
  shows "getMediaRoute P st caller mid (Some ''true'') hdr now =
     (Response 500 (Message ''Failed to serve media file''), st)"
proof -
  have r: "\<And>m. resolveVaultToken m (vaultTokenStore st) hdr caller now =
      (Resolved (Some (tokenPassphrase d)), vaultTokenStore st)"
    using resolve_owner [where store = "vaultTokenStore st", OF hdr token live own pw] .
  have c: "getMediaContent P st mid caller True (Some (tokenPassphrase d)) =
      Inl ''Invalid vault passphrase or corrupted encryption data''"
    by (rule getMediaContent_decrypt_fails [OF stored owner enc pw fails])
  show ?thesis
    using uuid by (simp add: getMediaRoute_def r c mediaError_corrupted)
qed

theorem decryption_failure_status_witness:
  "getMediaRoute toyPrims aliceServer ''alice'' exampleId (Some ''true'') (Some ''Bearer vault:T1'') 1000 =
     (Response 500 (Message ''Failed to serve media file''), aliceServer)"
proof -
  have owner: "uploadedBy lockedFile = ''alice''" by (simp add: lockedFile_def)
  have enc: "isEncrypted lockedFile" by (simp add: lockedFile_def)
  have live: "\<not> 1000 > expiresAt aliceToken" by (simp add: aliceToken_def)
  have own: "tokenUserId aliceToken = ''alice''" by (simp add: aliceToken_def)
  have pw: "tokenPassphrase aliceToken \<noteq> []" by (simp add: aliceToken_def)
  show ?thesis
    by (rule decryption_failure_status [OF aliceServer_file owner enc exampleId_valid
          example_header aliceServer_T1 live own pw lockedFile_unwrap_fails])
qed

text \<open>The thumbnail route on the same failure: its message contains \<open>decryption\<close>, and
  the response is 403.\<close>

lemma thumbnail_decryption_failure_status:
  assumes stored: "getMediaFile st mid = Some f"
    and owner: "uploadedBy f = caller"
    and enc: "isEncrypted f"
    and thumb: "thumbnailData f = Some t"
    and uuid: "isValidUUID mid"
    and hdr: "extractVaultToken hdr = Some tok"
    and token: "vaultTokenStore st tok = Some d"
    and live: "\<not> now > expiresAt d"
    and own: "tokenUserId d = caller"
    and pw: "tokenPassphrase d \<noteq> []"
    and fails: "unwrapAndDecrypt P f t (tokenPassphrase d) = Inl e"
  shows "getThumbnailRoute P st caller mid (Some ''true'') hdr now =
     (Response 403 (Message ''Invalid vault passphrase for thumbnail decryption''), st)"
proof -
  have r: "\<And>m. resolveVaultToken m (vaultTokenStore st) hdr caller now =
      (Resolved (Some (tokenPassphrase d)), vaultTokenStore st)"
    using resolve_owner [where store = "vaultTokenStore st", OF hdr token live own pw] .
  have c: "getThumbnail P st mid caller True (Some (tokenPassphrase d)) =
      Inl ''Invalid vault passphrase for thumbnail decryption''"
    by (rule getThumbnail_decrypt_fails [OF stored owner enc thumb pw fails])
  show ?thesis
    using uuid by (simp add: getThumbnailRoute_def r c thumbnailError_corrupted)
qed

section \<open>Vault setup and unlock\<close>

lemma vaultHash_value:
  "vaultHash = ''01010101010101010101010101010101:afb0b1b2b3b4b5b6b7b8b9babbbcbdbebfc0c1c2c3c4c5c6c7c8c9cacbcccdcecfd0d1d2d3d4d5d6d7d8d9dadbdcdddedfe0e1e2e3e4e5e6e7e8e9eaebecedee''"
  unfolding vaultHash_def by code_simp

lemma wrong_rejected: "\<not> verifyPassword toyPrims ''wrong'' vaultHash"
  unfolding vaultHash_value by code_simp

lemma right_accepted: "verifyPassword toyPrims ''Tr0ub4dor&3'' vaultHash"
  unfolding vaultHash_value by code_simp

lemma tokenServer_no_vault:
  "\<not> truthy (case getUser tokenServer ''alice'' of None \<Rightarrow> None | Some u \<Rightarrow> vaultPassphrase u)"
  by (simp add: getUser_def tokenServer_def truthy_def)

lemma aliceServer_user:
  "getUser aliceServer ''alice'' = Some \<lparr>email = None, role = Some ''user'', vaultPassphrase = Some vaultHash\<rparr>"
  by (simp add: getUser_def aliceServer_def)

lemma vaultHash_nonempty: "vaultHash \<noteq> []"
  by (simp add: vaultHash_value)

lemma newHash_value:
  "hashPassword toyPrims (replicate 16 2) ''correct horse'' =
   ''02020202020202020202020202020202:535455565758595a5b5c5d5e5f606162636465666768696a6b6c6d6e6f707172737475767778797a7b7c7d7e7f808182838485868788898a8b8c8d8e8f909192''"
  by code_simp

text \<open>
  Claim C5 (generic unlock failure), as the code has it. With a passphrase in the body,
  \<open>POST /api/vault/authenticate\<close> answers 404 \<open>No vault configured for this user\<close> and
  changes nothing when the user has no stored vault passphrase, and answers 401
  \<open>Invalid vault passphrase\<close>, after logging the failed attempt, when the passphrase does
  not verify against the stored hash. The two failures differ in status and in message.
\<close>

theorem unlock_failures_distinguished:
  "(truthy pw \<and> \<not> truthy (case getUser st uid of None \<Rightarrow> None | Some u \<Rightarrow> vaultPassphrase u) \<longrightarrow>
      vaultAuthenticateRoute P st uid pw now tok =
        (Response 404 (Message ''No vault configured for this user''), st))
   \<and> (truthy pw \<and> getUser st uid = Some u \<and> vaultPassphrase u = Some h \<and> h \<noteq> []
        \<and> \<not> verifyPassword P (the pw) h \<longrightarrow>
      vaultAuthenticateRoute P st uid pw now tok =
        (Response 401 (Message ''Invalid vault passphrase''),
         logActivity st uid ''VAULT_ACCESS_FAILED'' None))"
  by (simp add: vaultAuthenticateRoute_def truthy_def)

theorem unlock_failures_distinguished_witness:
  "vaultAuthenticateRoute toyPrims tokenServer ''alice'' (Some ''wrong'') 0 ''T2'' =
     (Response 404 (Message ''No vault configured for this user''), tokenServer)
   \<and> vaultAuthenticateRoute toyPrims aliceServer ''alice'' (Some ''wrong'') 0 ''T2'' =
     (Response 401 (Message ''Invalid vault passphrase''),
      logActivity aliceServer ''alice'' ''VAULT_ACCESS_FAILED'' None)"
  using unlock_failures_distinguished [where P = toyPrims and st = tokenServer and uid = "''alice''"
      and pw = "Some ''wrong''" and now = 0 and tok = "''T2''"]
    unlock_failures_distinguished [where P = toyPrims and st = aliceServer and uid = "''alice''"
      and pw = "Some ''wrong''" and now = 0 and tok = "''T2''" and h = vaultHash
      and u = "\<lparr>email = None, role = Some ''user'', vaultPassphrase = Some vaultHash\<rparr>"]
    tokenServer_no_vault aliceServer_user vaultHash_nonempty wrong_rejected
  by (simp add: truthy_def)

text \<open>The claim as stated, that both failures give the same response, fails: for a user
  without a vault and for a user with one, the same wrong passphrase gets 404 and 401.\<close>

theorem unlock_failure_generic_counterexample:
  "status (fst (vaultAuthenticateRoute toyPrims tokenServer ''alice'' (Some ''wrong'') 0 ''T2'')) = 404
   \<and> status (fst (vaultAuthenticateRoute toyPrims aliceServer ''alice'' (Some ''wrong'') 0 ''T2'')) = 401
   \<and> fst (vaultAuthenticateRoute toyPrims tokenServer ''alice'' (Some ''wrong'') 0 ''T2'') \<noteq>
     fst (vaultAuthenticateRoute toyPrims aliceServer ''alice'' (Some ''wrong'') 0 ''T2'')"
  using tokenServer_no_vault aliceServer_user vaultHash_nonempty wrong_rejected
  by (simp add: vaultAuthenticateRoute_def truthy_def)

text \<open>
  Claim C6 (setup guard), as the code has it. \<open>POST /api/vault/setup\<close> rejects a missing
  or empty passphrase and one shorter than 8 characters with 400 and changes nothing.
  Any other passphrase is hashed and upserted as the user's \<open>vaultPassphrase\<close>, whether
  or not the user had one: the route does not look at the stored value, and an existing hash
  is replaced. The rows of other users are left as they were.
\<close>

theorem setup_guard:
  "(\<not> truthy pw \<or> length (the pw) < 8 \<longrightarrow>
      vaultSetupRoute P st uid pw salt =
        (Response 400 (Message ''Passphrase must be at least 8 characters long''), st))
   \<and> (truthy pw \<and> 8 \<le> length (the pw) \<longrightarrow>
      fst (vaultSetupRoute P st uid pw salt) = Response 200 SuccessBody
      \<and> map_option vaultPassphrase (users (snd (vaultSetupRoute P st uid pw salt)) uid) =
          Some (Some (hashPassword P salt (the pw)))
      \<and> (\<forall>other. other \<noteq> uid \<longrightarrow>
            users (snd (vaultSetupRoute P st uid pw salt)) other = users st other))"
  by (auto simp: vaultSetupRoute_def upsertUser_def logActivity_def Let_def split: option.splits)

theorem setup_guard_witness:
  "vaultSetupRoute toyPrims aliceServer ''alice'' (Some ''short'') (replicate 16 2) =
     (Response 400 (Message ''Passphrase must be at least 8 characters long''), aliceServer)
   \<and> fst (vaultSetupRoute toyPrims aliceServer ''alice'' (Some ''correct horse'') (replicate 16 2)) =
       Response 200 SuccessBody
   \<and> map_option vaultPassphrase
       (users (snd (vaultSetupRoute toyPrims aliceServer ''alice'' (Some ''correct horse'') (replicate 16 2))) ''alice'') =
       Some (Some (hashPassword toyPrims (replicate 16 2) ''correct horse''))"
  using setup_guard [where P = toyPrims and st = aliceServer and uid = "''alice''"
      and pw = "Some ''short''" and salt = "replicate 16 2"]
    setup_guard [where P = toyPrims and st = aliceServer and uid = "''alice''"
      and pw = "Some ''correct horse''" and salt = "replicate 16 2"]
  by (simp add: truthy_def)

text \<open>The claim as stated, that a stored hash is never replaced, fails: a second setup
  by a user whose vault is configured succeeds and stores a different hash.\<close>

theorem setup_immutable_counterexample:
  "map_option vaultPassphrase (users aliceServer ''alice'') = Some (Some vaultHash)
   \<and> fst (vaultSetupRoute toyPrims aliceServer ''alice'' (Some ''correct horse'') (replicate 16 2)) =
       Response 200 SuccessBody
   \<and> map_option vaultPassphrase
       (users (snd (vaultSetupRoute toyPrims aliceServer ''alice'' (Some ''correct horse'') (replicate 16 2))) ''alice'') \<noteq>
     map_option vaultPassphrase (users aliceServer ''alice'')"
proof -
  have old: "map_option vaultPassphrase (users aliceServer ''alice'') = Some (Some vaultHash)"
    by (simp add: aliceServer_def)
  have new: "map_option vaultPassphrase
       (users (snd (vaultSetupRoute toyPrims aliceServer ''alice'' (Some ''correct horse'') (replicate 16 2))) ''alice'') =
       Some (Some (hashPassword toyPrims (replicate 16 2) ''correct horse''))"
    by (simp add: vaultSetupRoute_def truthy_def upsertUser_def logActivity_def Let_def aliceServer_def)
  have ok: "fst (vaultSetupRoute toyPrims aliceServer ''alice'' (Some ''correct horse'') (replicate 16 2)) =
       Response 200 SuccessBody"
    by (simp add: vaultSetupRoute_def truthy_def Let_def)
  have diff: "hashPassword toyPrims (replicate 16 2) ''correct horse'' \<noteq> vaultHash"
    by (simp add: newHash_value vaultHash_value)
  show ?thesis unfolding new old using ok diff by simp
qed

section \<open>Key wrapping on upload\<close>

lemma createMediaFile_appends:
  "createMediaFile st f = Inr st' \<Longrightarrow> mediaFiles st' = mediaFiles st @ [f]"
  by (auto simp: createMediaFile_def split: if_splits)

lemma authenticate_success:
  assumes "vaultAuthenticateRoute P st uid (Some pw) now tok = (Response 200 b, st1)"
    and "getUser st uid = Some u" and "vaultPassphrase u = Some h"
  shows "pw \<noteq> [] \<and> verifyPassword P pw h
     \<and> vaultTokenStore st1 tok = Some \<lparr>tokenUserId = uid, tokenPassphrase = pw, expiresAt = now + 30 * 60 * 1000\<rparr>
     \<and> mediaFiles st1 = mediaFiles st \<and> users st1 = users st"
  using assms
  by (auto simp: vaultAuthenticateRoute_def truthy_def Let_def logActivity_def split: if_splits)

lemma unwrap_with_other_key_fails:
  assumes b64: "hostBase64 P" and t16: "hostTag16 P"
    and salt: "length salt = 32" and iv: "length iv = 16"
    and reject: "rejectsUnder P pw h salt iv cek"
  shows "decryptString P (encryptString P salt iv cek pw) h =
     Inl ''Decryption failed: Invalid passphrase or corrupted data''"
proof -
  obtain c t where enc: "gcmEncrypt P (deriveKey P pw salt) iv (utf8Encode P cek) = (c, t)"
    by fastforce
  have tag: "length t = 16"
    using t16 enc by (metis hostTag16_def snd_conv)
  have none: "gcmDecrypt P (deriveKey P h salt) iv t c = None"
    using reject enc by (simp add: rejectsUnder_def)
  have frame: "encryptBuffer P salt iv (utf8Encode P cek) pw = salt @ iv @ t @ c"
    using enc by (simp add: encryptBuffer_def)
  have decoded: "base64Decode P (encryptString P salt iv cek pw) = salt @ iv @ t @ c"
    using b64 by (simp add: encryptString_def frame hostBase64_def)
  show ?thesis
    using decryptBuffer_frame [OF salt iv tag, of P c h] none
    by (simp add: decryptString_def decoded)
qed

lemma fromHex_toHex: "fromHex (toHex b) = b"
proof (induction b)
  case Nil
  then show ?case by (simp add: toHex_def)
next
  case (Cons x xs)
  have hi: "unat x div 16 < 16"
    using unsigned_less [of x, where 'a = nat] by simp
  have "\<forall>n \<in> set [0..<16]. hexVal (hexDigit n) = Some n"
    by code_simp
  then have d: "\<And>n. n < 16 \<Longrightarrow> hexVal (hexDigit n) = Some n"
    by simp
  have "16 * (unat x div 16) + unat x mod 16 = unat x" by simp
  then have "(of_nat (16 * (unat x div 16) + unat x mod 16) :: byte) = x" by simp
  then show ?case
    using Cons d [OF hi] d [of "unat x mod 16"] by (simp add: toHex_def)
qed

lemma toyPrims_base64: "hostBase64 toyPrims"
  by (simp add: hostBase64_def toyPrims_def fromHex_toHex)

lemma toyPrims_tag16: "hostTag16 toyPrims"
  by (simp add: hostTag16_def toyPrims_def toyEncrypt_def toyTag_def)

lemma toy_rejects:
  "rejectsUnder toyPrims ''Tr0ub4dor&3'' vaultHash (replicate 32 5) (replicate 16 6) (toHex (replicate 32 9))"
  unfolding vaultHash_value by code_simp

lemma unlocked_response:
  "vaultAuthenticateRoute toyPrims vaultServer ''alice'' (Some ''Tr0ub4dor&3'') 0 ''T1'' =
     (Response 200 (AuthBody ''T1'' 1800000), unlockedServer)"
  using right_accepted
  by (simp add: unlockedServer_def vaultAuthenticateRoute_def truthy_def getUser_def
      vaultServer_def Let_def vaultHash_nonempty)

lemma vaultServer_user:
  "getUser vaultServer ''alice'' = Some \<lparr>email = None, role = Some ''user'', vaultPassphrase = Some vaultHash\<rparr>"
  by (simp add: getUser_def vaultServer_def)

lemma unlocked_rows: "mediaFiles unlockedServer = []"
  using authenticate_success [OF unlocked_response vaultServer_user]
  by (simp add: vaultServer_def)

lemma toHex_empty: "toHex b = [] \<longleftrightarrow> b = []"
  by (cases b) (simp_all add: toHex_def)

lemma unlocked_token:
  "vaultTokenStore unlockedServer ''T1'' =
     Some \<lparr>tokenUserId = ''alice'', tokenPassphrase = ''Tr0ub4dor&3'', expiresAt = 1800000\<rparr>"
  using authenticate_success [OF unlocked_response vaultServer_user] by simp

lemma unlocked_user:
  "getUser unlockedServer ''alice'' =
     Some \<lparr>email = None, role = Some ''user'', vaultPassphrase = Some vaultHash\<rparr>"
  using authenticate_success [OF unlocked_response vaultServer_user] vaultServer_user
  by (simp add: getUser_def)

lemma encryptStep_result:
  assumes "encryptStep P st buf uploader opts d thumb = Inr (pb, ek, th)"
    and "optEncryptContent opts"
    and "optEncryptionKey opts = Some key" and "key \<noteq> []"
    and "optVaultPassphrase opts = Some vp" and "vp \<noteq> []"
  shows "pb = encryptBuffer P (contentSalt d) (contentIv d) buf key
     \<and> ek = Some (encryptString P (keySalt d) (keyIv d) key vp)
     \<and> th = map_option (\<lambda>t. encryptBuffer P (thumbSalt d) (thumbIv d) t key) thumb"
  using assms by (auto simp: encryptStep_def truthy_def Let_def split: if_splits)

lemma processFile_outcome:
  assumes run: "processFile P st (fileBuffer fl) (originalname fl) (mimetype fl) uploader opts d =
      Inr (r, st')"
    and gen: "optGenerateThumbnail opts"
    and enc: "optEncryptContent opts"
    and key: "optEncryptionKey opts = Some key" "key \<noteq> []"
    and vp: "optVaultPassphrase opts = Some vp" "vp \<noteq> []"
  shows "(isDuplicate r \<and> mediaFiles st' = mediaFiles st) \<or>
     (\<not> isDuplicate r \<and> (\<exists>f. mediaFiles st' = mediaFiles st @ [f] \<and> mediaId f = resultId r
        \<and> wrappedRow P uploader key vp fl d f))"
proof (cases "getMediaFileByHash st (toHex (sha256 P (fileBuffer fl))) uploader")
  case (Some existing)
  then show ?thesis using run by (auto simp: processFile_def Let_def duplicateResult_def)
next
  case None
  from run None obtain thumb where
    th: "makeThumbnail (mimetype fl) (optGenerateThumbnail opts) d = Inr thumb"
    by (cases "makeThumbnail (mimetype fl) (optGenerateThumbnail opts) d")
       (simp_all add: processFile_def Let_def)
  from run None th obtain pb ek tn where
    es: "encryptStep P st (fileBuffer fl) uploader opts d thumb = Inr (pb, ek, tn)"
    by (cases "encryptStep P st (fileBuffer fl) uploader opts d thumb")
       (auto simp: processFile_def Let_def)
  note res = encryptStep_result [OF es enc key vp]
  let ?f = "\<lparr>mediaId = newId d, filename = uniqueFilename d,
              originalName = originalname fl, mimeType = mimetype fl,
              fileSize = length (fileBuffer fl),
              sha256Hash = toHex (sha256 P (fileBuffer fl)), binaryData = pb, thumbnailData = tn,
              isEncrypted = optEncryptContent opts, encryptionKey = ek,
              categoryId = optCategoryId opts, uploadedBy = uploader, isDeleted = False\<rparr>"
  have row: "wrappedRow P uploader key vp fl d ?f"
    using res enc th gen by (simp add: wrappedRow_def)
  show ?thesis
  proof (cases "createMediaFile st ?f")
    case (Inl e)
    then show ?thesis
      using run None th es by (simp add: processFile_def Let_def split: if_splits)
  next
    case (Inr st2)
    then have "st' = st2" and r: "resultId r = newId d" "\<not> isDuplicate r"
      using run None th es by (auto simp: processFile_def Let_def)
    then have "mediaFiles st' = mediaFiles st @ [?f]"
      using createMediaFile_appends [OF Inr] by simp
    then show ?thesis using row r by auto
  qed
qed

lemma processFiles_outcome:
  assumes gen: "optGenerateThumbnail opts"
    and enc: "optEncryptContent opts"
    and key: "optEncryptionKey opts = Some key" "key \<noteq> []"
    and vp: "optVaultPassphrase opts = Some vp" "vp \<noteq> []"
  shows "processFiles P st uid opts files = (rs, st') \<Longrightarrow>
     length rs = length files \<and>
     (\<exists>added. mediaFiles st' = mediaFiles st @ added
        \<and> (\<forall>f \<in> set added. \<exists>p \<in> set files. wrappedRow P uid key vp (fst p) (snd p) f)
        \<and> (\<forall>r. Processed r \<in> set rs \<and> \<not> isDuplicate r \<longrightarrow>
              (\<exists>f \<in> set added. mediaId f = resultId r)))"
proof (induction files arbitrary: st rs)
  case Nil
  then show ?case by simp
next
  case (Cons a rest)
  obtain fl d where a: "a = (fl, d)" by (cases a)
  show ?case
  proof (cases "processFile P st (fileBuffer fl) (originalname fl) (mimetype fl) uid opts d")
    case (Inl e)
    then obtain rs' where rest: "processFiles P st uid opts rest = (rs', st')"
      and rs: "rs = Failed (originalname fl) e # rs'"
      using Cons.prems a by (auto split: prod.splits)
    from Cons.IH [OF rest] obtain added where
      "length rs' = length rest" "mediaFiles st' = mediaFiles st @ added"
      "\<forall>f \<in> set added. \<exists>p \<in> set rest. wrappedRow P uid key vp (fst p) (snd p) f"
      "\<forall>r. Processed r \<in> set rs' \<and> \<not> isDuplicate r \<longrightarrow> (\<exists>f \<in> set added. mediaId f = resultId r)"
      by blast
    then show ?thesis
      using rs by (intro conjI exI [of _ added]) auto
  next
    case (Inr p)
    obtain r st1 where p: "p = (r, st1)" by (cases p)
    then obtain rs' where rest: "processFiles P st1 uid opts rest = (rs', st')"
      and rs: "rs = Processed r # rs'"
      using Cons.prems a Inr by (auto split: prod.splits)
    from Cons.IH [OF rest] obtain added where ih:
      "length rs' = length rest" "mediaFiles st' = mediaFiles st1 @ added"
      "\<forall>f \<in> set added. \<exists>p \<in> set rest. wrappedRow P uid key vp (fst p) (snd p) f"
      "\<forall>r. Processed r \<in> set rs' \<and> \<not> isDuplicate r \<longrightarrow> (\<exists>f \<in> set added. mediaId f = resultId r)"
      by blast
    from processFile_outcome [OF Inr [unfolded p] gen enc key vp]
    consider (dup) "isDuplicate r" "mediaFiles st1 = mediaFiles st"
      | (new) g where "\<not> isDuplicate r" "mediaFiles st1 = mediaFiles st @ [g]"
          "mediaId g = resultId r" "wrappedRow P uid key vp fl d g"
      by blast
    then show ?thesis
    proof cases
      case dup
      then show ?thesis
        using ih rs by (intro conjI exI [of _ added]) auto
    next
      case new
      then show ?thesis
        using ih rs a by (intro conjI exI [of _ "g # added"]) auto
    qed
  qed
qed
lemma sha_first: "toHex (sha256 toyPrims [1, 2, 3]) = ''06''"
  by code_simp

lemma sha_second: "toHex (sha256 toyPrims [7, 8]) = ''0f''"
  by code_simp

lemma uploaded_response:
  "uploadRoute toyPrims unlockedServer ''alice'' [(exampleUpload, exampleDraws)]
     ''true'' None (Some ''Bearer vault:T1'') 1000 (replicate 32 9) =
   (Response 200 (ResultsBody [Processed \<lparr>resultId = exampleId, resultSha256Hash = ''06'',
       isDuplicate = False, thumbnailGenerated = True\<rparr>]), uploadedServer)"
proof -
  have "fst (uploadRoute toyPrims unlockedServer ''alice'' [(exampleUpload, exampleDraws)]
     ''true'' None (Some ''Bearer vault:T1'') 1000 (replicate 32 9)) =
     Response 200 (ResultsBody [Processed \<lparr>resultId = exampleId, resultSha256Hash = ''06'',
       isDuplicate = False, thumbnailGenerated = True\<rparr>])"
    using unlocked_rows unlocked_token unlocked_user
    by (simp add: uploadRoute_def resolveVaultToken_def example_header
        getVaultPassphrase_def truthy_def toHex_empty Let_def processFile_def
        getMediaFileByHash_def makeThumbnail_def exampleUpload_def exampleDraws_def
        encryptStep_def vaultHash_nonempty createMediaFile_def logActivity_def sha_first)
  then show ?thesis
    by (simp add: uploadedServer_def prod_eq_iff)
qed

lemma toy_utf8: "utf8Decode toyPrims (utf8Encode toyPrims s) = s"
proof -
  have "\<And>c. char_of (unat (of_nat (of_char c) :: byte)) = c"
    by (simp add: unat_of_nat)
  then show ?thesis
    by (simp add: toyPrims_def o_def)
qed

lemma decryptString_encryptString:
  assumes b64: "hostBase64 P" and t16: "hostTag16 P"
    and salt: "length salt = 32" and iv: "length iv = 16"
    and utf8: "utf8Decode P (utf8Encode P s) = s"
    and gcm: "\<And>c t. gcmEncrypt P (deriveKey P pw salt) iv (utf8Encode P s) = (c, t) \<Longrightarrow>
        gcmDecrypt P (deriveKey P pw salt) iv t c = Some (utf8Encode P s)"
  shows "decryptString P (encryptString P salt iv s pw) pw = Inr s"
proof -
  obtain c t where enc: "gcmEncrypt P (deriveKey P pw salt) iv (utf8Encode P s) = (c, t)"
    by fastforce
  have tag: "length t = 16"
    using t16 enc by (metis hostTag16_def snd_conv)
  have frame: "encryptBuffer P salt iv (utf8Encode P s) pw = salt @ iv @ t @ c"
    using enc by (simp add: encryptBuffer_def)
  have decoded: "base64Decode P (encryptString P salt iv s pw) = salt @ iv @ t @ c"
    using b64 by (simp add: encryptString_def frame hostBase64_def)
  show ?thesis
    using decryptBuffer_frame [OF salt iv tag, of P c pw] gcm [OF enc] utf8
    by (simp add: decryptString_def decoded)
qed

lemma toy_unwrap:
  assumes "length salt = 32" and "length iv = 16"
  shows "decryptString toyPrims (encryptString toyPrims salt iv s pw) pw = Inr s"
proof (rule decryptString_encryptString [OF toyPrims_base64 toyPrims_tag16 assms toy_utf8])
  fix c t
  assume "gcmEncrypt toyPrims (deriveKey toyPrims pw salt) iv (utf8Encode toyPrims s) = (c, t)"
  then have "toyEncrypt (deriveKey toyPrims pw salt) iv (utf8Encode toyPrims s) = (c, t)"
    by (simp add: toyPrims_def)
  from toyDecrypt_toyEncrypt [OF this]
  show "gcmDecrypt toyPrims (deriveKey toyPrims pw salt) iv t c = Some (utf8Encode toyPrims s)"
    by (simp add: toyPrims_def)
qed

lemma twoFile_rows:
  "map (\<lambda>f. (mediaId f, encryptionKey f, binaryData f)) (mediaFiles twoFileServer) =
     [(exampleId,
       Some (encryptString toyPrims (replicate 32 5) (replicate 16 6) (toHex (replicate 32 9)) ''Tr0ub4dor&3''),
       encryptBuffer toyPrims (replicate 32 3) (replicate 16 4) [1, 2, 3] (toHex (replicate 32 9))),
      (secondId,
       Some (encryptString toyPrims (replicate 32 15) (replicate 16 16) (toHex (replicate 32 9)) ''Tr0ub4dor&3''),
       encryptBuffer toyPrims (replicate 32 13) (replicate 16 14) [7, 8] (toHex (replicate 32 9)))]"
  using unlocked_rows unlocked_token unlocked_user
  by (simp add: twoFileServer_def uploadRoute_def resolveVaultToken_def example_header
      getVaultPassphrase_def truthy_def toHex_empty Let_def processFile_def
      getMediaFileByHash_def makeThumbnail_def exampleUpload_def exampleDraws_def
      secondUpload_def secondDraws_def getUser_def
      encryptStep_def vaultHash_nonempty createMediaFile_def logActivity_def sha_first sha_second)

text \<open>
  Claim C2 (key wrapping uses the raw passphrase), as the code has it. A user unlocks the
  vault with the passphrase \<open>pw\<close>, which \<open>verifyPassword\<close> accepts against the stored
  hash \<open>h\<close>; the token \<open>tok\<close> is minted and the token table holds \<open>pw\<close> under it. An
  upload with \<open>encryptContent = 'true'\<close> then presents that token. The content key is the
  hex string of the 32 random bytes drawn once for the request, the same for every file of
  the request. Every row the upload adds to \<open>media_files\<close> is the \<open>wrappedRow\<close> of one of
  the files: \<open>isEncrypted\<close> is set, the bytes and the thumbnail are encrypted under the
  content key, and the wrapped key is \<open>encryptString\<close> of that same content key under
  \<open>pw\<close>, the raw passphrase, with the salt and IV drawn for the file; the hash \<open>h\<close> is
  not the key material. Every file the response reports as processed and not a duplicate
  has such a row under the id reported, and an upload by the token's user before the expiry
  answers 200 with one outcome for each file. Consequently, when the draws have their
  lengths, base64 decoding inverts encoding, the tag has 16 bytes and the host cipher
  rejects the key derived from the hash string \<open>h\<close>, unwrapping the stored key with \<open>h\<close>
  throws the decryption error.
\<close>

theorem wrapped_key_uses_raw_passphrase:
  assumes auth: "vaultAuthenticateRoute P st0 uid (Some pw) t0 tok = (Response 200 b, st1)"
    and user: "getUser st0 uid = Some u" "vaultPassphrase u = Some h"
    and hdr: "extractVaultToken hdr = Some tok"
    and key: "length keyBytes = 32"
    and up: "uploadRoute P st1 caller files ''true'' cat hdr now keyBytes = (resp, st2)"
  shows "verifyPassword P pw h
     \<and> vaultTokenStore st1 tok =
         Some \<lparr>tokenUserId = uid, tokenPassphrase = pw, expiresAt = t0 + 30 * 60 * 1000\<rparr>
     \<and> (\<forall>f \<in> set (mediaFiles st2). f \<notin> set (mediaFiles st1) \<longrightarrow>
          (\<exists>p \<in> set files.
             wrappedRow P caller (toHex keyBytes) pw (fst p) (snd p) f
           \<and> (hostBase64 P \<and> hostTag16 P
                \<and> length (keySalt (snd p)) = 32 \<and> length (keyIv (snd p)) = 16
                \<and> rejectsUnder P pw h (keySalt (snd p)) (keyIv (snd p)) (toHex keyBytes) \<longrightarrow>
                decryptString P (the (encryptionKey f)) h =
                  Inl ''Decryption failed: Invalid passphrase or corrupted data'')))
     \<and> (\<forall>results r. resp = Response 200 (ResultsBody results)
            \<and> Processed r \<in> set results \<and> \<not> isDuplicate r \<longrightarrow>
          (\<exists>f \<in> set (mediaFiles st2). mediaId f = resultId r
             \<and> (\<exists>p \<in> set files. wrappedRow P caller (toHex keyBytes) pw (fst p) (snd p) f)))
     \<and> (files \<noteq> [] \<and> caller = uid \<and> now \<le> t0 + 30 * 60 * 1000 \<longrightarrow>
          (\<exists>results. resp = Response 200 (ResultsBody results) \<and> length results = length files))"
proof -
  let ?exp = "t0 + 30 * 60 * 1000"
  let ?opts = "\<lparr>optGenerateThumbnail = True, optEncryptContent = True,
      optEncryptionKey = Some (toHex keyBytes), optVaultPassphrase = Some pw,
      optCategoryId = cat\<rparr>"
  let ?row = "\<lambda>p f. wrappedRow P caller (toHex keyBytes) pw (fst p) (snd p) f"
  from authenticate_success [OF auth user]
  have pw: "pw \<noteq> []" and ver: "verifyPassword P pw h"
    and tokd: "vaultTokenStore st1 tok =
        Some \<lparr>tokenUserId = uid, tokenPassphrase = pw, expiresAt = ?exp\<rparr>"
    by simp_all
  have keyhex: "toHex keyBytes \<noteq> []"
    using key by (cases keyBytes) (simp_all add: toHex_def)
  have hashfail: "\<And>p f. ?row p f \<Longrightarrow>
      hostBase64 P \<and> hostTag16 P \<and> length (keySalt (snd p)) = 32 \<and> length (keyIv (snd p)) = 16
        \<and> rejectsUnder P pw h (keySalt (snd p)) (keyIv (snd p)) (toHex keyBytes) \<longrightarrow>
      decryptString P (the (encryptionKey f)) h =
        Inl ''Decryption failed: Invalid passphrase or corrupted data''"
    using unwrap_with_other_key_fails [where P = P and pw = pw and h = h]
    by (simp add: wrappedRow_def)
  consider (none) "files = [] \<or> now > ?exp \<or> uid \<noteq> caller"
    | (run) "files \<noteq> []" "\<not> now > ?exp" "uid = caller"
    by blast
  then have main: "(\<forall>f \<in> set (mediaFiles st2). f \<notin> set (mediaFiles st1) \<longrightarrow> (\<exists>p \<in> set files. ?row p f))
     \<and> (\<forall>results r. resp = Response 200 (ResultsBody results)
            \<and> Processed r \<in> set results \<and> \<not> isDuplicate r \<longrightarrow>
          (\<exists>f \<in> set (mediaFiles st2). mediaId f = resultId r \<and> (\<exists>p \<in> set files. ?row p f)))
     \<and> (files \<noteq> [] \<and> caller = uid \<and> now \<le> ?exp \<longrightarrow>
          (\<exists>results. resp = Response 200 (ResultsBody results) \<and> length results = length files))"
  proof cases
    case none
    then have "mediaFiles st2 = mediaFiles st1 \<and> (\<forall>results. resp \<noteq> Response 200 (ResultsBody results))"
      using up hdr tokd
      by (auto simp: uploadRoute_def resolveVaultToken_def getVaultPassphrase_def truthy_def
          split: if_splits)
    then show ?thesis using none by auto
  next
    case run
    have res: "resolveVaultToken ''Vault authorization token required for encrypted uploads''
        (vaultTokenStore st1) hdr caller now = (Resolved (Some pw), vaultTokenStore st1)"
      using hdr tokd run pw
      by (simp add: resolveVaultToken_def getVaultPassphrase_def truthy_def)
    obtain rs st3 where go: "processFiles P st1 caller ?opts files = (rs, st3)"
      by fastforce
    have out: "resp = Response 200 (ResultsBody rs)" "st2 = logActivity st3 caller ''UPLOAD_MEDIA'' None"
      using up run keyhex go by (simp_all add: uploadRoute_def res Let_def)
    then have rows: "mediaFiles st2 = mediaFiles st3"
      by (simp add: logActivity_def)
    from processFiles_outcome [where opts = ?opts, OF _ _ _ keyhex _ pw go]
    obtain added where len: "length rs = length files"
      and app: "mediaFiles st3 = mediaFiles st1 @ added"
      and all: "\<forall>f \<in> set added. \<exists>p \<in> set files. ?row p f"
      and each: "\<forall>r. Processed r \<in> set rs \<and> \<not> isDuplicate r \<longrightarrow>
          (\<exists>f \<in> set added. mediaId f = resultId r)"
      by auto
    have a: "\<forall>f \<in> set (mediaFiles st2). f \<notin> set (mediaFiles st1) \<longrightarrow> (\<exists>p \<in> set files. ?row p f)"
      using rows app all by auto
    have b: "\<forall>results r. resp = Response 200 (ResultsBody results)
            \<and> Processed r \<in> set results \<and> \<not> isDuplicate r \<longrightarrow>
          (\<exists>f \<in> set (mediaFiles st2). mediaId f = resultId r \<and> (\<exists>p \<in> set files. ?row p f))"
    proof (intro allI impI, elim conjE)
      fix results r
      assume "resp = Response 200 (ResultsBody results)" "Processed r \<in> set results" "\<not> isDuplicate r"
      then have "Processed r \<in> set rs" using out(1) by simp
      then obtain f where "f \<in> set added" "mediaId f = resultId r"
        using each \<open>\<not> isDuplicate r\<close> by blast
      then show "\<exists>f \<in> set (mediaFiles st2). mediaId f = resultId r \<and> (\<exists>p \<in> set files. ?row p f)"
        using rows app all by auto
    qed
    have c: "\<exists>results. resp = Response 200 (ResultsBody results) \<and> length results = length files"
      using out(1) len by simp
    from a b c show ?thesis by (intro conjI impI)
  qed
  have withhash: "\<forall>f \<in> set (mediaFiles st2). f \<notin> set (mediaFiles st1) \<longrightarrow>
          (\<exists>p \<in> set files. ?row p f
           \<and> (hostBase64 P \<and> hostTag16 P
                \<and> length (keySalt (snd p)) = 32 \<and> length (keyIv (snd p)) = 16
                \<and> rejectsUnder P pw h (keySalt (snd p)) (keyIv (snd p)) (toHex keyBytes) \<longrightarrow>
                decryptString P (the (encryptionKey f)) h =
                  Inl ''Decryption failed: Invalid passphrase or corrupted data''))"
  proof (intro ballI impI)
    fix f assume "f \<in> set (mediaFiles st2)" "f \<notin> set (mediaFiles st1)"
    then obtain p where p: "p \<in> set files" "?row p f"
      using main by blast
    from hashfail [OF p(2)] p show "\<exists>p \<in> set files. ?row p f
           \<and> (hostBase64 P \<and> hostTag16 P
                \<and> length (keySalt (snd p)) = 32 \<and> length (keyIv (snd p)) = 16
                \<and> rejectsUnder P pw h (keySalt (snd p)) (keyIv (snd p)) (toHex keyBytes) \<longrightarrow>
                decryptString P (the (encryptionKey f)) h =
                  Inl ''Decryption failed: Invalid passphrase or corrupted data'')"
      by (intro bexI [of _ p] conjI)
  qed
  from main have b: "\<forall>results r. resp = Response 200 (ResultsBody results)
            \<and> Processed r \<in> set results \<and> \<not> isDuplicate r \<longrightarrow>
          (\<exists>f \<in> set (mediaFiles st2). mediaId f = resultId r \<and> (\<exists>p \<in> set files. ?row p f))"
    and c: "files \<noteq> [] \<and> caller = uid \<and> now \<le> ?exp \<longrightarrow>
          (\<exists>results. resp = Response 200 (ResultsBody results) \<and> length results = length files)"
    by (rule conjunct1 [OF conjunct2], rule conjunct2 [OF conjunct2])
  show ?thesis
    by (intro conjI ver tokd withhash b c)
qed

theorem wrapped_key_uses_raw_passphrase_witness:
  "fst (uploadRoute toyPrims unlockedServer ''alice'' [(exampleUpload, exampleDraws)]
      ''true'' None (Some ''Bearer vault:T1'') 1000 (replicate 32 9)) =
     Response 200 (ResultsBody [Processed \<lparr>resultId = exampleId, resultSha256Hash = ''06'',
       isDuplicate = False, thumbnailGenerated = True\<rparr>])
   \<and> (\<exists>f \<in> set (mediaFiles uploadedServer). mediaId f = exampleId
        \<and> wrappedRow toyPrims ''alice'' (toHex (replicate 32 9)) ''Tr0ub4dor&3''
             exampleUpload exampleDraws f
        \<and> decryptString toyPrims (the (encryptionKey f)) vaultHash =
             Inl ''Decryption failed: Invalid passphrase or corrupted data'')"
proof -
  let ?r = "\<lparr>resultId = exampleId, resultSha256Hash = ''06'',
       isDuplicate = False, thumbnailGenerated = True\<rparr>"
  let ?row = "wrappedRow toyPrims ''alice'' (toHex (replicate 32 9)) ''Tr0ub4dor&3''"
  have hash: "vaultPassphrase \<lparr>email = None, role = Some ''user'', vaultPassphrase = Some vaultHash\<rparr> =
      Some vaultHash"
    by simp
  have key: "length (replicate 32 9 :: buffer) = 32" by simp
  note inst = wrapped_key_uses_raw_passphrase [OF unlocked_response vaultServer_user hash
      example_header key uploaded_response]
  from inst have persist: "\<forall>results r.
      Response 200 (ResultsBody [Processed ?r]) = Response 200 (ResultsBody results)
        \<and> Processed r \<in> set results \<and> \<not> isDuplicate r \<longrightarrow>
      (\<exists>f \<in> set (mediaFiles uploadedServer). mediaId f = resultId r
         \<and> (\<exists>p \<in> set [(exampleUpload, exampleDraws)]. ?row (fst p) (snd p) f))"
    by (elim conjE)
  then obtain f where f: "f \<in> set (mediaFiles uploadedServer)" "mediaId f = exampleId"
    by (auto dest!: spec [where x = "[Processed ?r]"] spec [where x = ?r])
  have fresh: "f \<notin> set (mediaFiles unlockedServer)"
    by (simp add: unlocked_rows)
  from inst have "\<forall>f \<in> set (mediaFiles uploadedServer). f \<notin> set (mediaFiles unlockedServer) \<longrightarrow>
      (\<exists>p \<in> set [(exampleUpload, exampleDraws)]. ?row (fst p) (snd p) f
         \<and> (hostBase64 toyPrims \<and> hostTag16 toyPrims
              \<and> length (keySalt (snd p)) = 32 \<and> length (keyIv (snd p)) = 16
              \<and> rejectsUnder toyPrims ''Tr0ub4dor&3'' vaultHash (keySalt (snd p)) (keyIv (snd p))
                   (toHex (replicate 32 9)) \<longrightarrow>
              decryptString toyPrims (the (encryptionKey f)) vaultHash =
                Inl ''Decryption failed: Invalid passphrase or corrupted data''))"
    by (elim conjE)
  with f(1) fresh have "?row exampleUpload exampleDraws f
      \<and> (hostBase64 toyPrims \<and> hostTag16 toyPrims
           \<and> length (keySalt exampleDraws) = 32 \<and> length (keyIv exampleDraws) = 16
           \<and> rejectsUnder toyPrims ''Tr0ub4dor&3'' vaultHash (keySalt exampleDraws) (keyIv exampleDraws)
                (toHex (replicate 32 9)) \<longrightarrow>
           decryptString toyPrims (the (encryptionKey f)) vaultHash =
             Inl ''Decryption failed: Invalid passphrase or corrupted data'')"
    by auto
  moreover have "keySalt exampleDraws = replicate 32 5" "keyIv exampleDraws = replicate 16 6"
    by (simp_all add: exampleDraws_def)
  ultimately have "?row exampleUpload exampleDraws f
      \<and> decryptString toyPrims (the (encryptionKey f)) vaultHash =
             Inl ''Decryption failed: Invalid passphrase or corrupted data''"
    using toy_rejects toyPrims_base64 toyPrims_tag16 by simp
  then show ?thesis
    using f uploaded_response by auto
qed

text \<open>The claim as stated, that the wrapped key is that of a per-object content key,
  fails: two files uploaded in one request are stored under one content key. Both rows
  are encrypted under the hex string of the same 32 bytes, and unwrapping either stored
  key with the passphrase gives that string.\<close>

theorem wrapped_key_per_object_counterexample:
  "map mediaId (mediaFiles twoFileServer) = [exampleId, secondId]
   \<and> map encryptionKey (mediaFiles twoFileServer) =
      [Some (encryptString toyPrims (replicate 32 5) (replicate 16 6) (toHex (replicate 32 9)) ''Tr0ub4dor&3''),
       Some (encryptString toyPrims (replicate 32 15) (replicate 16 16) (toHex (replicate 32 9)) ''Tr0ub4dor&3'')]
   \<and> map binaryData (mediaFiles twoFileServer) =
      [encryptBuffer toyPrims (replicate 32 3) (replicate 16 4) [1, 2, 3] (toHex (replicate 32 9)),
       encryptBuffer toyPrims (replicate 32 13) (replicate 16 14) [7, 8] (toHex (replicate 32 9))]
   \<and> map (\<lambda>f. decryptString toyPrims (the (encryptionKey f)) ''Tr0ub4dor&3'') (mediaFiles twoFileServer) =
      [Inr (toHex (replicate 32 9)), Inr (toHex (replicate 32 9))]"
proof -
  obtain f g where rows: "mediaFiles twoFileServer = [f, g]"
    using twoFile_rows by (auto simp: map_eq_Cons_conv)
  then have vals: "mediaId f = exampleId" "mediaId g = secondId"
      "encryptionKey f = Some (encryptString toyPrims (replicate 32 5) (replicate 16 6) (toHex (replicate 32 9)) ''Tr0ub4dor&3'')"
      "encryptionKey g = Some (encryptString toyPrims (replicate 32 15) (replicate 16 16) (toHex (replicate 32 9)) ''Tr0ub4dor&3'')"
      "binaryData f = encryptBuffer toyPrims (replicate 32 3) (replicate 16 4) [1, 2, 3] (toHex (replicate 32 9))"
      "binaryData g = encryptBuffer toyPrims (replicate 32 13) (replicate 16 14) [7, 8] (toHex (replicate 32 9))"
    using twoFile_rows by simp_all
  show ?thesis
    by (simp add: rows vals toy_unwrap)
qed

section \<open>The constant-time helper\<close>

text \<open>
  \<open>constantTimeCompare\<close> decides equality of its arguments, so it returns what \<open>===\<close>
  returns. \<open>verifyPassword\<close> compares with \<open>===\<close> and does not call it; the two differ
  only in how long they take, which these definitions do not express.
\<close>

lemma charCode_inject: "charCode x = charCode y \<longleftrightarrow> x = y"
proof -
  have "take_bit 32 (of_char x :: nat) = of_char x" "take_bit 32 (of_char y :: nat) = of_char y"
    by (simp_all add: take_bit_nat_eq_self_iff less_trans [OF nat_of_char_less_256])
  then show ?thesis
    by (simp add: charCode_def word_of_nat_eq_iff)
qed

lemma xor_zero_iff: "(a :: 32 word) XOR b = 0 \<longleftrightarrow> a = b"
  by (metis xor.right_neutral xor_self_eq xor.assoc xor.commute)

lemma compareLoop_zero:
  "length a = length b \<Longrightarrow> compareLoop r a b = 0 \<longleftrightarrow> r = 0 \<and> a = b"
proof (induction a b arbitrary: r rule: list_induct2)
  case Nil
  then show ?case by simp
next
  case (Cons x xs y ys)
  then show ?case
    by (auto simp: or_eq_0_iff xor_zero_iff charCode_inject)
qed

lemma constantTimeCompare_eq: "constantTimeCompare a b \<longleftrightarrow> a = b"
  by (auto simp: constantTimeCompare_def compareLoop_zero)

end
